theory Spec2Isabelle
  imports Main "HOL-Library.Word"
begin

section \<open>Data model of the alarm timer firmware\<close>

text \<open>
  The firmware runs on an ESP32: \<open>int\<close>, \<open>long\<close> and \<open>unsigned long\<close> are all 32 bits
  wide. Every integer field is a 32-bit word; \<open>+\<close>, \<open>-\<close> and \<open>*\<close> wrap, \<open>div\<close> is the
  unsigned division, and a signed comparison of the source reads the word with \<open>sint\<close>.
  Where a signed product of the source overflows (undefined in C) the model wraps it.
\<close>

type_synonym u32 = "32 word"

record Timer =
  running :: bool
  paused :: bool
  startTime :: u32
  pauseTime :: u32
  duration :: u32
  remainingTime :: u32
  warningTriggered :: bool
  alarmTriggered :: bool
  playerName :: string
  sessionCount :: u32
  totalPlayTime :: u32

record CourtSettings =
  volume :: u32
  warningTime :: u32
  loopAlarm :: bool

record Config =
  globalVolume :: u32
  alarmDuration :: u32
  warningDuration :: u32
  useSDCard :: bool

text \<open>
  \<open>struct AlarmState\<close>; its fields \<open>startTime\<close> and \<open>duration\<close> carry the suffix
  \<open>_a\<close> here because \<open>Timer\<close> already uses the names.
\<close>

record AlarmState =
  active :: bool
  startTime_a :: u32
  duration_a :: u32
  isWarning :: bool
  fieldIndex :: nat
  looping :: bool

datatype backend = SD | LittleFS

text \<open>The \<open>AudioGeneratorWAV\<close> object behind the pointer \<open>wav\<close>.\<close>

datatype generator = AudioGeneratorWAV

text \<open>
  The lines written with \<open>Serial.println\<close> by the functions modelled below, one
  constructor per call site. A court is logged by its index (the firmware prints
  index + 1).
\<close>

datatype msg =
    MsgCourtStarted nat u32
  | MsgCourtPaused nat
  | MsgCourtResumed nat
  | MsgCourtStopped nat
  | MsgSettingsUpdated nat
  | MsgDurationUpdated
  | MsgAlarmSeconds u32
  | MsgWarningSeconds u32
  | MsgGlobalVolume u32
  | MsgWarningAlarm nat
  | MsgTimeUpAlarm nat
  | MsgLoopAlarm nat
  | MsgPlaying bool u32
  | MsgNotReady
  | MsgPlayingFrom backend bool string
  | MsgNoAudioFile
  | MsgLedOn nat
  | MsgLedOff nat

text \<open>
  The global variables. The arrays of four (\<open>timers\<close>, \<open>courtSettings\<close>,
  \<open>alarmStates\<close>, the levels of \<open>LED_PINS\<close>) are functions of the court index; the
  firmware reads and writes them at indices 0 to 3 only. A file source is the path it
  was opened on. \<open>audioOwner\<close> is a history variable, not a variable of the firmware:
  it holds the \<open>fieldIndex\<close> argument of the \<open>playAudio\<close> call that opened the clip
  now playing; the firmware never reads it.
\<close>

record sys =
  timers :: "nat \<Rightarrow> Timer"
  courtSettings :: "nat \<Rightarrow> CourtSettings"
  config :: Config
  alarmStates :: "nat \<Rightarrow> AlarmState"
  leds :: "nat \<Rightarrow> bool"
  wav :: "generator option"
  fileSD :: "string option"
  fileLittleFS :: "string option"
  audioPlaying :: bool
  audioSystemReady :: bool
  sdCardAvailable :: bool
  littleFSAvailable :: bool
  audioOwner :: "nat option"
  serial :: "msg list"

text \<open>
  The clip storage as the firmware sees it: \<open>SD.exists\<close>, \<open>LittleFS.exists\<close>, and
  whether \<open>wav->begin\<close> succeeds on a source opened on the path.
\<close>

record storage =
  sdExists :: "string \<Rightarrow> bool"
  sdBegin :: "string \<Rightarrow> bool"
  lfsExists :: "string \<Rightarrow> bool"
  lfsBegin :: "string \<Rightarrow> bool"

definition audioFiles :: "string list list" where
  "audioFiles =
    [[''/audio/alarm1.wav'', ''/audio/warning1.wav''],
     [''/audio/alarm2.wav'', ''/audio/warning2.wav''],
     [''/audio/alarm3.wav'', ''/audio/warning3.wav''],
     [''/audio/alarm4.wav'', ''/audio/warning4.wav'']]"

definition defaultAudioFiles :: "string list" where
  "defaultAudioFiles = [''/audio/alarm.wav'', ''/audio/warning.wav'']"

section \<open>LEDs and the audio channel\<close>

definition say :: "msg \<Rightarrow> sys \<Rightarrow> sys" where
  "say m s = s\<lparr>serial := serial s @ [m]\<rparr>"

text \<open>
  \<open>activateLED\<close> and \<open>deactivateLED\<close> take an \<open>int\<close> and test
  \<open>index >= 0 && index < 4\<close>; the index is a natural number here, so only the upper
  bound is left to test.
\<close>

definition activateLED :: "nat \<Rightarrow> sys \<Rightarrow> sys" where
  "activateLED index s =
    (if index < 4 then say (MsgLedOn index) (s\<lparr>leds := (leds s)(index := True)\<rparr>) else s)"

definition deactivateLED :: "nat \<Rightarrow> sys \<Rightarrow> sys" where
  "deactivateLED index s =
    (if index < 4 then say (MsgLedOff index) (s\<lparr>leds := (leds s)(index := False)\<rparr>) else s)"

text \<open>
  \<open>stopAudio\<close> frees the generator and both file sources when they are allocated and
  clears \<open>audioPlaying\<close>, whoever started the clip; the history variable
  \<open>audioOwner\<close> is cleared with it.
\<close>

definition stopAudio :: "sys \<Rightarrow> sys" where
  "stopAudio s =
    (let s1 = (if wav s \<noteq> None then s\<lparr>wav := None\<rparr> else s);
         s2 = (if fileSD s1 \<noteq> None then s1\<lparr>fileSD := None\<rparr> else s1);
         s3 = (if fileLittleFS s2 \<noteq> None then s2\<lparr>fileLittleFS := None\<rparr> else s2)
     in s3\<lparr>audioPlaying := False, audioOwner := None\<rparr>)"

text \<open>
  One attempt of \<open>playAudio\<close> to open a path, on the SD card when \<open>useSD\<close> and
  otherwise on LittleFS when it is mounted. \<open>Some\<close> is the state at the \<open>return\<close> of
  a successful attempt; \<open>None\<close> means the attempt fell through, with the generator and
  the source deleted again. The source has this block twice, for the clip of the court
  and for the default clip (\<open>isDefault\<close>), with different log lines. A successful
  attempt records the court in the history variable \<open>audioOwner\<close>.
\<close>

definition openClip :: "storage \<Rightarrow> bool \<Rightarrow> bool \<Rightarrow> nat \<Rightarrow> string \<Rightarrow> sys \<Rightarrow> sys option" where
  "openClip env useSD isDefault fieldIdx audioPath s =
    (if useSD then
       (if sdExists env audioPath then
          (if sdBegin env audioPath then
             Some (say (MsgPlayingFrom SD isDefault audioPath)
               (s\<lparr>fileSD := Some audioPath, wav := Some AudioGeneratorWAV,
                  audioPlaying := True, audioOwner := Some fieldIdx\<rparr>))
           else None)
        else None)
     else if littleFSAvailable s then
       (if lfsExists env audioPath then
          (if lfsBegin env audioPath then
             Some (say (MsgPlayingFrom LittleFS isDefault audioPath)
               (s\<lparr>fileLittleFS := Some audioPath, wav := Some AudioGeneratorWAV,
                  audioPlaying := True, audioOwner := Some fieldIdx\<rparr>))
           else None)
        else None)
     else None)"

definition playAudio :: "storage \<Rightarrow> nat \<Rightarrow> bool \<Rightarrow> sys \<Rightarrow> sys" where
  "playAudio env fieldIdx isWarn s =
    (if \<not> audioSystemReady s then say MsgNotReady s
     else
       let s1 = stopAudio s;
           audioType = (if isWarn then 1 else 0);
           useSD = (useSDCard (config s1) \<and> sdCardAvailable s1)
       in case openClip env useSD False fieldIdx (audioFiles ! fieldIdx ! audioType) s1 of
            Some s2 \<Rightarrow> s2
          | None \<Rightarrow>
              (case openClip env useSD True fieldIdx (defaultAudioFiles ! audioType) s1 of
                 Some s2 \<Rightarrow> s2
               | None \<Rightarrow> say MsgNoAudioFile s1))"

text \<open>
  \<open>updateAudioPlayback\<close>; \<open>isRunning\<close> and \<open>loopOk\<close> are what \<open>wav->isRunning()\<close>
  and \<open>wav->loop()\<close> return.
\<close>

definition updateAudioPlayback :: "bool \<Rightarrow> bool \<Rightarrow> sys \<Rightarrow> sys" where
  "updateAudioPlayback isRunning loopOk s =
    (if audioPlaying s \<and> wav s \<noteq> None then
       (if isRunning then (if \<not> loopOk then stopAudio s else s) else stopAudio s)
     else s)"

section \<open>Alarms and timers\<close>

text \<open>Writing one element of \<open>timers\<close> and of \<open>alarmStates\<close>.\<close>

definition setTimer :: "nat \<Rightarrow> (Timer \<Rightarrow> Timer) \<Rightarrow> sys \<Rightarrow> sys" where
  "setTimer i f s = s\<lparr>timers := (timers s)(i := f (timers s i))\<rparr>"

definition setAlarm :: "nat \<Rightarrow> (AlarmState \<Rightarrow> AlarmState) \<Rightarrow> sys \<Rightarrow> sys" where
  "setAlarm i f s = s\<lparr>alarmStates := (alarmStates s)(i := f (alarmStates s i))\<rparr>"

text \<open>\<open>millis\<close> is the reading of \<open>millis()\<close> inside \<open>triggerAlarm\<close>.\<close>

definition triggerAlarm :: "storage \<Rightarrow> u32 \<Rightarrow> nat \<Rightarrow> u32 \<Rightarrow> bool \<Rightarrow> sys \<Rightarrow> sys" where
  "triggerAlarm env millis index durationSeconds isWarn s =
    (let s1 = setAlarm index
                (\<lambda>a. a\<lparr>active := True, startTime_a := millis,
                       duration_a := durationSeconds * 1000, isWarning := isWarn,
                       fieldIndex := index, looping := loopAlarm (courtSettings s index)\<rparr>) s;
         s2 = activateLED index s1;
         s3 = playAudio env index isWarn s2
     in say (MsgPlaying isWarn durationSeconds) s3)"

text \<open>
  The local variable \<open>remaining\<close> of \<open>updateTimers\<close>: a \<open>long\<close> initialised from the
  unsigned quotient \<open>(duration - elapsed) / 1000\<close>, then set to 0 when negative.
\<close>

definition remainingAt :: "u32 \<Rightarrow> Timer \<Rightarrow> u32" where
  "remainingAt currentMillis t =
    (let elapsed = currentMillis - startTime t;
         remaining0 = (duration t - elapsed) div 1000
     in if sint remaining0 < 0 then 0 else remaining0)"

text \<open>
  The body of the loop of \<open>updateTimers\<close> for court \<open>i\<close>. \<open>currentMillis\<close> is read
  once before the loop; \<open>trigMillis i\<close> is the later reading of \<open>millis()\<close> inside
  \<open>triggerAlarm\<close>.
\<close>

definition updateTimers_court :: "storage \<Rightarrow> u32 \<Rightarrow> (nat \<Rightarrow> u32) \<Rightarrow> nat \<Rightarrow> sys \<Rightarrow> sys" where
  "updateTimers_court env currentMillis trigMillis i s =
    (if \<not> running (timers s i) \<or> paused (timers s i) then s
     else
       let elapsed = currentMillis - startTime (timers s i);
           remaining = remainingAt currentMillis (timers s i);
           s1 = setTimer i (\<lambda>t. t\<lparr>remainingTime := remaining,
                                   totalPlayTime := elapsed div 1000\<rparr>) s;
           s2 = (if \<not> warningTriggered (timers s1 i)
                    \<and> sint remaining \<le> sint (warningTime (courtSettings s1 i) * 60)
                    \<and> 0 < sint remaining
                 then say (MsgWarningAlarm i)
                        (triggerAlarm env (trigMillis i) i (warningDuration (config s1)) True
                          (setTimer i (\<lambda>t. t\<lparr>warningTriggered := True\<rparr>) s1))
                 else s1);
           s3 = (if \<not> alarmTriggered (timers s2 i) \<and> sint remaining \<le> 0
                 then say (MsgTimeUpAlarm i)
                        (triggerAlarm env (trigMillis i) i (alarmDuration (config s2)) False
                          (setTimer i (\<lambda>t. t\<lparr>alarmTriggered := True, running := False\<rparr>) s2))
                 else s2)
       in s3)"

definition updateTimers :: "storage \<Rightarrow> u32 \<Rightarrow> (nat \<Rightarrow> u32) \<Rightarrow> sys \<Rightarrow> sys" where
  "updateTimers env currentMillis trigMillis s =
    fold (updateTimers_court env currentMillis trigMillis) [0..<4] s"

text \<open>The body of the loop of \<open>updateAlarms\<close> for court \<open>i\<close>.\<close>

definition updateAlarms_court :: "storage \<Rightarrow> u32 \<Rightarrow> nat \<Rightarrow> sys \<Rightarrow> sys" where
  "updateAlarms_court env currentMillis i s =
    (if \<not> active (alarmStates s i) then s
     else
       let elapsed = currentMillis - startTime_a (alarmStates s i)
       in if duration_a (alarmStates s i) \<le> elapsed then
            (if looping (alarmStates s i) \<and> loopAlarm (courtSettings s i) then
               say (MsgLoopAlarm i)
                 (playAudio env i (isWarning (alarmStates s i))
                   (setAlarm i (\<lambda>a. a\<lparr>startTime_a := currentMillis\<rparr>) s))
             else
               stopAudio (deactivateLED i (setAlarm i (\<lambda>a. a\<lparr>active := False\<rparr>) s)))
          else s)"

definition updateAlarms :: "storage \<Rightarrow> u32 \<Rightarrow> sys \<Rightarrow> sys" where
  "updateAlarms env currentMillis s = fold (updateAlarms_court env currentMillis) [0..<4] s"

section \<open>Request handlers\<close>

text \<open>
  The body of a request as a handler reads it: absent (\<open>!server.hasArg("plain")\<close>),
  not JSON (\<open>deserializeJson\<close> reports an error), or the values the handler takes out
  of the document. A handler returns the status code it sends and the new state.
\<close>

datatype 'a body = NoBody | InvalidJson | Json 'a

text \<open>\<open>handleStart\<close>: the document gives \<open>courtId\<close>, \<open>duration\<close> (minutes) and \<open>playerName\<close>.\<close>

definition handleStart :: "(int \<times> u32 \<times> string) body \<Rightarrow> u32 \<Rightarrow> sys \<Rightarrow> nat \<times> sys" where
  "handleStart req millis s =
    (case req of
       NoBody \<Rightarrow> (400, s)
     | InvalidJson \<Rightarrow> (400, s)
     | Json (courtId, dur, name) \<Rightarrow>
         if courtId < 0 \<or> courtId \<ge> 4 then (400, s)
         else
           (200, say (MsgCourtStarted (nat courtId) dur)
              (setTimer (nat courtId)
                (\<lambda>t. t\<lparr>running := True, paused := False, startTime := millis,
                       duration := dur * 60 * 1000, remainingTime := dur * 60,
                       warningTriggered := False, alarmTriggered := False,
                       playerName := name, sessionCount := sessionCount t + 1\<rparr>) s)))"

definition handlePause :: "int body \<Rightarrow> u32 \<Rightarrow> sys \<Rightarrow> nat \<times> sys" where
  "handlePause req millis s =
    (case req of
       NoBody \<Rightarrow> (400, s)
     | InvalidJson \<Rightarrow> (400, s)
     | Json courtId \<Rightarrow>
         if courtId < 0 \<or> courtId \<ge> 4 then (400, s)
         else
           let i = nat courtId in
           if running (timers s i) \<and> \<not> paused (timers s i) then
             (200, say (MsgCourtPaused i)
                (setTimer i (\<lambda>t. t\<lparr>paused := True, pauseTime := millis\<rparr>) s))
           else if paused (timers s i) then
             (let pauseDuration = millis - pauseTime (timers s i) in
              (200, say (MsgCourtResumed i)
                 (setTimer i (\<lambda>t. t\<lparr>startTime := startTime t + pauseDuration,
                                    paused := False\<rparr>) s)))
           else (200, s))"

definition handleStop :: "int body \<Rightarrow> sys \<Rightarrow> nat \<times> sys" where
  "handleStop req s =
    (case req of
       NoBody \<Rightarrow> (400, s)
     | InvalidJson \<Rightarrow> (400, s)
     | Json courtId \<Rightarrow>
         if courtId < 0 \<or> courtId \<ge> 4 then (400, s)
         else
           let i = nat courtId;
               s1 = setTimer i (\<lambda>t. t\<lparr>running := False, paused := False,
                                       remainingTime := 0\<rparr>) s;
               s2 = deactivateLED i s1;
               s3 = stopAudio s2
           in (200, say (MsgCourtStopped i) s3))"

text \<open>
  \<open>handleSettings\<close>: the document gives \<open>courtId\<close> and, with the defaults 70, 5 and
  false already applied, \<open>volume\<close>, \<open>warningTime\<close> and \<open>loopAlarm\<close>. The write to the
  preferences store is outside this model.
\<close>

definition handleSettings :: "(int \<times> u32 \<times> u32 \<times> bool) body \<Rightarrow> sys \<Rightarrow> nat \<times> sys" where
  "handleSettings req s =
    (case req of
       NoBody \<Rightarrow> (400, s)
     | InvalidJson \<Rightarrow> (400, s)
     | Json (courtId, vol, warn, lp) \<Rightarrow>
         if courtId < 0 \<or> courtId \<ge> 4 then (400, s)
         else
           (200, say (MsgSettingsUpdated (nat courtId))
              (s\<lparr>courtSettings := (courtSettings s)(nat courtId :=
                    \<lparr>volume = vol, warningTime = warn, loopAlarm = lp\<rparr>)\<rparr>)))"

text \<open>
  \<open>handleSetDuration\<close>: the document may give \<open>alarmDuration\<close> and
  \<open>warningDuration\<close>; a missing one defaults to the configured value. Both are
  range-checked as \<open>int\<close>.
\<close>

definition handleSetDuration :: "(u32 option \<times> u32 option) body \<Rightarrow> sys \<Rightarrow> nat \<times> sys" where
  "handleSetDuration req s =
    (case req of
       NoBody \<Rightarrow> (400, s)
     | InvalidJson \<Rightarrow> (400, s)
     | Json (a, w) \<Rightarrow>
         let alarmDur = (case a of Some v \<Rightarrow> v | None \<Rightarrow> alarmDuration (config s));
             warnDur = (case w of Some v \<Rightarrow> v | None \<Rightarrow> warningDuration (config s))
         in if sint alarmDur < 1 \<or> 60 < sint alarmDur then (400, s)
            else if sint warnDur < 1 \<or> 30 < sint warnDur then (400, s)
            else
              (200, say (MsgWarningSeconds warnDur) (say (MsgAlarmSeconds alarmDur)
                 (say MsgDurationUpdated
                   (s\<lparr>config := (config s)\<lparr>alarmDuration := alarmDur,
                                             warningDuration := warnDur\<rparr>\<rparr>)))))"

text \<open>\<open>handleGlobalVolume\<close>: the document gives \<open>volume\<close>, 70 when missing.\<close>

definition handleGlobalVolume :: "u32 body \<Rightarrow> sys \<Rightarrow> nat \<times> sys" where
  "handleGlobalVolume req s =
    (case req of
       NoBody \<Rightarrow> (400, s)
     | InvalidJson \<Rightarrow> (400, s)
     | Json vol \<Rightarrow>
         (200, say (MsgGlobalVolume vol) (s\<lparr>config := (config s)\<lparr>globalVolume := vol\<rparr>\<rparr>)))"

section \<open>Start-up and runs of the firmware\<close>

text \<open>
  The state the function \<open>setup\<close> of the firmware leaves (\<open>setup_fw\<close> here): \<open>sdOk\<close> and \<open>lfsOk\<close> are the results of mounting the two
  file systems, \<open>cfg\<close> and \<open>cs\<close> what the preferences store holds. The log starts empty
  after \<open>setup\<close>.
\<close>

definition setup_fw :: "bool \<Rightarrow> bool \<Rightarrow> Config \<Rightarrow> (nat \<Rightarrow> CourtSettings) \<Rightarrow> sys" where
  "setup_fw sdOk lfsOk cfg cs =
    \<lparr>timers = (\<lambda>i. \<lparr>running = False, paused = False, startTime = 0, pauseTime = 0,
                     duration = 0, remainingTime = 0, warningTriggered = False,
                     alarmTriggered = False, playerName = [], sessionCount = 0,
                     totalPlayTime = 0\<rparr>),
     courtSettings = cs,
     config = cfg,
     alarmStates = (\<lambda>i. \<lparr>active = False, startTime_a = 0, duration_a = 0,
                          isWarning = False, fieldIndex = i, looping = False\<rparr>),
     leds = (\<lambda>i. False),
     wav = None, fileSD = None, fileLittleFS = None,
     audioPlaying = False, audioSystemReady = True,
     sdCardAvailable = sdOk, littleFSAvailable = lfsOk,
     audioOwner = None, serial = []\<rparr>"

text \<open>
  What can happen after \<open>setup\<close>: a request is handled, or one of the three update
  functions of \<open>loop\<close> runs. Each carries the clock readings and the storage it sees.
\<close>

datatype op =
    Start "(int \<times> u32 \<times> string) body" u32
  | Pause "int body" u32
  | Stop "int body"
  | Settings "(int \<times> u32 \<times> u32 \<times> bool) body"
  | SetDuration "(u32 option \<times> u32 option) body"
  | GlobalVolume "u32 body"
  | TimerTick storage u32 "nat \<Rightarrow> u32"
  | AlarmTick storage u32
  | AudioTick bool bool

fun exec :: "op \<Rightarrow> sys \<Rightarrow> sys" where
  "exec (Start req millis) s = snd (handleStart req millis s)"
| "exec (Pause req millis) s = snd (handlePause req millis s)"
| "exec (Stop req) s = snd (handleStop req s)"
| "exec (Settings req) s = snd (handleSettings req s)"
| "exec (SetDuration req) s = snd (handleSetDuration req s)"
| "exec (GlobalVolume req) s = snd (handleGlobalVolume req s)"
| "exec (TimerTick env currentMillis trigMillis) s = updateTimers env currentMillis trigMillis s"
| "exec (AlarmTick env currentMillis) s = updateAlarms env currentMillis s"
| "exec (AudioTick isRunning loopOk) s = updateAudioPlayback isRunning loopOk s"

definition run :: "op list \<Rightarrow> sys \<Rightarrow> sys" where
  "run ops s = fold exec ops s"

section \<open>Notions used in the statements\<close>

text \<open>The clips that have a file source open: what the channel is rendering.\<close>

definition rendering :: "sys \<Rightarrow> (backend \<times> string) list" where
  "rendering s =
    (case fileSD s of None \<Rightarrow> [] | Some p \<Rightarrow> [(SD, p)]) @
    (case fileLittleFS s of None \<Rightarrow> [] | Some p \<Rightarrow> [(LittleFS, p)])"

text \<open>
  Whether \<open>playAudio\<close> gets a clip open for the court: the clip of the court or the
  default clip, on the backend that \<open>playAudio\<close> selects.
\<close>

definition clipOpens :: "storage \<Rightarrow> nat \<Rightarrow> bool \<Rightarrow> sys \<Rightarrow> bool" where
  "clipOpens env fieldIdx isWarn s =
    (let audioType = (if isWarn then 1 else 0);
         useSD = (useSDCard (config s) \<and> sdCardAvailable s)
     in openClip env useSD False fieldIdx (audioFiles ! fieldIdx ! audioType) s \<noteq> None
        \<or> openClip env useSD True fieldIdx (defaultAudioFiles ! audioType) s \<noteq> None)"

text \<open>
  The conditions under which \<open>updateTimers\<close> raises the warning and the expiry alarm
  of court \<open>i\<close> at the clock reading \<open>currentMillis\<close>.
\<close>

definition advancing :: "nat \<Rightarrow> sys \<Rightarrow> bool" where
  "advancing i s = (running (timers s i) \<and> \<not> paused (timers s i))"

definition warningDue :: "u32 \<Rightarrow> nat \<Rightarrow> sys \<Rightarrow> bool" where
  "warningDue currentMillis i s =
    (advancing i s \<and> \<not> warningTriggered (timers s i)
     \<and> sint (remainingAt currentMillis (timers s i)) \<le> sint (warningTime (courtSettings s i) * 60)
     \<and> 0 < sint (remainingAt currentMillis (timers s i)))"

definition expiryDue :: "u32 \<Rightarrow> nat \<Rightarrow> sys \<Rightarrow> bool" where
  "expiryDue currentMillis i s =
    (advancing i s \<and> \<not> alarmTriggered (timers s i)
     \<and> sint (remainingAt currentMillis (timers s i)) \<le> 0)"

text \<open>How often a line has been written to the serial log.\<close>

definition fired :: "msg \<Rightarrow> sys \<Rightarrow> nat" where
  "fired m s = count_list (serial s) m"


fun isTick :: "op \<Rightarrow> bool" where
  "isTick (TimerTick env currentMillis trigMillis) = True"
| "isTick (AlarmTick env currentMillis) = True"
| "isTick (AudioTick isRunning loopOk) = True"
| "isTick other = False"

subsection \<open>Invariants of the reachable states\<close>

text \<open>
  The state of the channel in every state the firmware reaches: a clip is playing, from
  exactly one open source, through the generator; or nothing is allocated.
\<close>

definition channelOk :: "sys \<Rightarrow> bool" where
  "channelOk s =
    (if audioPlaying s
     then wav s \<noteq> None \<and> length (rendering s) = 1 \<and> audioOwner s \<noteq> None
     else wav s = None \<and> rendering s = [] \<and> audioOwner s = None)"

text \<open>The invariant of the four timers: only a running timer is paused.\<close>

definition timersOk :: "sys \<Rightarrow> bool" where
  "timersOk s = (\<forall>c \<in> {0..<4}. paused (timers s c) \<longrightarrow> running (timers s c))"

text \<open>The LED of each court is on exactly when its alarm is active.\<close>

definition ledOk :: "sys \<Rightarrow> bool" where
  "ledOk s = (\<forall>c \<in> {0..<4}. leds s c = active (alarmStates s c))"

subsection \<open>The clip that \<open>playAudio\<close> selects\<close>

text \<open>
  The two attempts of \<open>playAudio\<close> read as one choice: \<open>u\<close> is \<open>useSD\<close>, \<open>l\<close> is
  \<open>littleFSAvailable\<close>, \<open>p\<close> the clip of the court and \<open>d\<close> the default clip.
  \<open>playAudio_eq\<close> below proves that \<open>playAudio\<close> makes exactly this choice.
\<close>

definition sdOpens :: "storage \<Rightarrow> string \<Rightarrow> bool" where
  "sdOpens env p = (sdExists env p \<and> sdBegin env p)"

definition lfsOpens :: "storage \<Rightarrow> string \<Rightarrow> bool" where
  "lfsOpens env p = (lfsExists env p \<and> lfsBegin env p)"

definition pick :: "storage \<Rightarrow> bool \<Rightarrow> bool \<Rightarrow> string \<Rightarrow> string \<Rightarrow> (backend \<times> bool \<times> string) option" where
  "pick env u l p d =
    (if u then
       (if sdOpens env p then Some (SD, False, p)
        else if sdOpens env d then Some (SD, True, d) else None)
     else if l then
       (if lfsOpens env p then Some (LittleFS, False, p)
        else if lfsOpens env d then Some (LittleFS, True, d) else None)
     else None)"

definition played :: "storage \<Rightarrow> nat \<Rightarrow> bool \<Rightarrow> sys \<Rightarrow> (backend \<times> bool \<times> string) option" where
  "played env i w s =
    pick env (useSDCard (config s) \<and> sdCardAvailable s) (littleFSAvailable s)
      (audioFiles ! i ! (if w then 1 else 0)) (defaultAudioFiles ! (if w then 1 else 0))"

definition startClip :: "backend \<Rightarrow> string \<Rightarrow> nat \<Rightarrow> sys \<Rightarrow> sys" where
  "startClip b p i s =
    (if b = SD then s\<lparr>fileSD := Some p, wav := Some AudioGeneratorWAV,
                       audioPlaying := True, audioOwner := Some i\<rparr>
     else s\<lparr>fileLittleFS := Some p, wav := Some AudioGeneratorWAV,
            audioPlaying := True, audioOwner := Some i\<rparr>)"

subsection \<open>The timer after a pass, and what is left of its two alarms\<close>

text \<open>
  What one pass of the loop body of \<open>updateTimers\<close> does to the \<open>Timer\<close> of its
  court; \<open>warn\<close> is the \<open>warningTime\<close> of the court. \<open>updateTimers_court_eq\<close> below
  proves that \<open>updateTimers_court\<close> writes exactly this.
\<close>

definition tickTimer :: "u32 \<Rightarrow> u32 \<Rightarrow> Timer \<Rightarrow> Timer" where
  "tickTimer currentMillis warn t =
    (if \<not> running t \<or> paused t then t
     else
       let remaining = remainingAt currentMillis t;
           t1 = t\<lparr>remainingTime := remaining,
                  totalPlayTime := (currentMillis - startTime t) div 1000\<rparr>;
           t2 = (if \<not> warningTriggered t1 \<and> sint remaining \<le> sint (warn * 60) \<and> 0 < sint remaining
                 then t1\<lparr>warningTriggered := True\<rparr> else t1);
           t3 = (if \<not> alarmTriggered t2 \<and> sint remaining \<le> 0
                 then t2\<lparr>alarmTriggered := True, running := False\<rparr> else t2)
       in t3)"

text \<open>
  What is left of the one warning, and of the one expiry alarm, of the run of court
  \<open>c\<close>: the lines already written plus one while the latch is clear.
\<close>

definition warnBudget :: "nat \<Rightarrow> sys \<Rightarrow> nat" where
  "warnBudget c s =
    fired (MsgWarningAlarm c) s + (if warningTriggered (timers s c) then 0 else 1)"

definition expiryBudget :: "nat \<Rightarrow> sys \<Rightarrow> nat" where
  "expiryBudget c s =
    fired (MsgTimeUpAlarm c) s + (if alarmTriggered (timers s c) then 0 else 1)"

subsection \<open>Concrete configurations\<close>

definition ex_config :: Config where
  "ex_config = \<lparr>globalVolume = 70, alarmDuration = 12, warningDuration = 8, useSDCard = True\<rparr>"

definition ex_settings :: "nat \<Rightarrow> CourtSettings" where
  "ex_settings = (\<lambda>i. \<lparr>volume = 70, warningTime = 5, loopAlarm = False\<rparr>)"

text \<open>The firmware after start-up with both file systems mounted and default preferences.\<close>

definition ex_boot :: sys where
  "ex_boot = setup_fw True True ex_config ex_settings"

text \<open>A storage where every clip opens, one with no clip at all, one with clips on LittleFS only.\<close>

definition storage_full :: storage where
  "storage_full = \<lparr>sdExists = (\<lambda>p. True), sdBegin = (\<lambda>p. True),
                    lfsExists = (\<lambda>p. True), lfsBegin = (\<lambda>p. True)\<rparr>"

definition storage_empty :: storage where
  "storage_empty = \<lparr>sdExists = (\<lambda>p. False), sdBegin = (\<lambda>p. False),
                     lfsExists = (\<lambda>p. False), lfsBegin = (\<lambda>p. False)\<rparr>"

definition storage_lfs_only :: storage where
  "storage_lfs_only = \<lparr>sdExists = (\<lambda>p. False), sdBegin = (\<lambda>p. False),
                        lfsExists = (\<lambda>p. True), lfsBegin = (\<lambda>p. True)\<rparr>"

text \<open>A storage whose SD card holds the expiry clip of court 2 and nothing else.\<close>

definition storage_alarm3_only :: storage where
  "storage_alarm3_only = \<lparr>sdExists = (\<lambda>p. p = ''/audio/alarm3.wav''), sdBegin = (\<lambda>p. True),
                           lfsExists = (\<lambda>p. False), lfsBegin = (\<lambda>p. False)\<rparr>"

text \<open>Court 0 started at clock reading 0 for one minute.\<close>

definition ex_started :: sys where
  "ex_started = snd (handleStart (Json (0, 1, ''A'')) 0 ex_boot)"

text \<open>Courts 0 and 1 both started at clock reading 0 for one minute.\<close>

definition ex_two_started :: sys where
  "ex_two_started =
    snd (handleStart (Json (1, 1, ''B'')) 0 (snd (handleStart (Json (0, 1, ''A'')) 0 ex_boot)))"

text \<open>The alarm of court 2 raised on the freshly started firmware, every clip present.\<close>

definition ex_alarm2 :: sys where
  "ex_alarm2 = triggerAlarm storage_full 0 2 12 False ex_boot"

text \<open>Then the alarm of court 0 raised as well: both alarms are active, court 0 has the channel.\<close>

definition ex_alarm2_then_0 :: sys where
  "ex_alarm2_then_0 = triggerAlarm storage_full 5000 0 12 False ex_alarm2"

text \<open>The alarm of court 2 raised on that storage: its clip plays from the SD card.\<close>

definition ex_alarm2_sole_clip :: sys where
  "ex_alarm2_sole_clip = triggerAlarm storage_alarm3_only 0 2 12 False ex_boot"


text \<open>
  A run: court 2 is started for one minute at clock reading 0, and the pass over the
  timers at 60000 raises its expiry alarm.
\<close>

definition ex_run_expired2 :: "op list" where
  "ex_run_expired2 =
    [Start (Json (2, 1, ''A'')) 0, TimerTick storage_full 60000 (\<lambda>i. 60000)]"


text \<open>Passes of the three update functions while a timer is paused.\<close>

definition ex_paused_ticks :: "op list" where
  "ex_paused_ticks =
    [TimerTick storage_full 15000 (\<lambda>i. 15000), AlarmTick storage_full 15000,
     AudioTick True True, TimerTick storage_full 20000 (\<lambda>i. 20000)]"

text \<open>
  With \<open>loopAlarm\<close> set for every court: the alarm of court 2 is raised at clock
  reading 0 and court 2 is then stopped.
\<close>

definition ex_looping_stopped :: sys where
  "ex_looping_stopped =
    snd (handleStop (Json 2)
      (triggerAlarm storage_full 0 2 12 False
        (setup_fw True True ex_config (\<lambda>i. \<lparr>volume = 70, warningTime = 5, loopAlarm = True\<rparr>))))"

section \<open>Basic facts about the operations\<close>

lemma upt4: "[0..<4] = [0, 1, 2, Suc 2]"
  by (simp add: upt_rec)

lemma fold_preserves:
  assumes "\<And>i s. P s \<Longrightarrow> P (f i s)" and "P s"
  shows "P (fold f xs s)"
  using assms(2) by (induction xs arbitrary: s) (simp_all add: assms(1))

subsection \<open>Logging and field updates\<close>

lemma say_frame [simp]:
  "timers (say m s) = timers s"
  "courtSettings (say m s) = courtSettings s"
  "config (say m s) = config s"
  "alarmStates (say m s) = alarmStates s"
  "leds (say m s) = leds s"
  "wav (say m s) = wav s"
  "fileSD (say m s) = fileSD s"
  "fileLittleFS (say m s) = fileLittleFS s"
  "audioPlaying (say m s) = audioPlaying s"
  "audioSystemReady (say m s) = audioSystemReady s"
  "sdCardAvailable (say m s) = sdCardAvailable s"
  "littleFSAvailable (say m s) = littleFSAvailable s"
  "audioOwner (say m s) = audioOwner s"
  "serial (say m s) = serial s @ [m]"
  by (simp_all add: say_def)

lemma setTimer_frame [simp]:
  "timers (setTimer i f s) = (timers s)(i := f (timers s i))"
  "courtSettings (setTimer i f s) = courtSettings s"
  "config (setTimer i f s) = config s"
  "alarmStates (setTimer i f s) = alarmStates s"
  "leds (setTimer i f s) = leds s"
  "wav (setTimer i f s) = wav s"
  "fileSD (setTimer i f s) = fileSD s"
  "fileLittleFS (setTimer i f s) = fileLittleFS s"
  "audioPlaying (setTimer i f s) = audioPlaying s"
  "audioSystemReady (setTimer i f s) = audioSystemReady s"
  "sdCardAvailable (setTimer i f s) = sdCardAvailable s"
  "littleFSAvailable (setTimer i f s) = littleFSAvailable s"
  "audioOwner (setTimer i f s) = audioOwner s"
  "serial (setTimer i f s) = serial s"
  by (simp_all add: setTimer_def)

lemma setAlarm_frame [simp]:
  "timers (setAlarm i f s) = timers s"
  "courtSettings (setAlarm i f s) = courtSettings s"
  "config (setAlarm i f s) = config s"
  "alarmStates (setAlarm i f s) = (alarmStates s)(i := f (alarmStates s i))"
  "leds (setAlarm i f s) = leds s"
  "wav (setAlarm i f s) = wav s"
  "fileSD (setAlarm i f s) = fileSD s"
  "fileLittleFS (setAlarm i f s) = fileLittleFS s"
  "audioPlaying (setAlarm i f s) = audioPlaying s"
  "audioSystemReady (setAlarm i f s) = audioSystemReady s"
  "sdCardAvailable (setAlarm i f s) = sdCardAvailable s"
  "littleFSAvailable (setAlarm i f s) = littleFSAvailable s"
  "audioOwner (setAlarm i f s) = audioOwner s"
  "serial (setAlarm i f s) = serial s"
  by (simp_all add: setAlarm_def)

lemma activateLED_frame [simp]:
  "timers (activateLED i s) = timers s"
  "courtSettings (activateLED i s) = courtSettings s"
  "config (activateLED i s) = config s"
  "alarmStates (activateLED i s) = alarmStates s"
  "leds (activateLED i s) = (if i < 4 then (leds s)(i := True) else leds s)"
  "wav (activateLED i s) = wav s"
  "fileSD (activateLED i s) = fileSD s"
  "fileLittleFS (activateLED i s) = fileLittleFS s"
  "audioPlaying (activateLED i s) = audioPlaying s"
  "audioSystemReady (activateLED i s) = audioSystemReady s"
  "sdCardAvailable (activateLED i s) = sdCardAvailable s"
  "littleFSAvailable (activateLED i s) = littleFSAvailable s"
  "audioOwner (activateLED i s) = audioOwner s"
  "serial (activateLED i s) = (if i < 4 then serial s @ [MsgLedOn i] else serial s)"
  by (simp_all add: activateLED_def)

lemma deactivateLED_frame [simp]:
  "timers (deactivateLED i s) = timers s"
  "courtSettings (deactivateLED i s) = courtSettings s"
  "config (deactivateLED i s) = config s"
  "alarmStates (deactivateLED i s) = alarmStates s"
  "leds (deactivateLED i s) = (if i < 4 then (leds s)(i := False) else leds s)"
  "wav (deactivateLED i s) = wav s"
  "fileSD (deactivateLED i s) = fileSD s"
  "fileLittleFS (deactivateLED i s) = fileLittleFS s"
  "audioPlaying (deactivateLED i s) = audioPlaying s"
  "audioSystemReady (deactivateLED i s) = audioSystemReady s"
  "sdCardAvailable (deactivateLED i s) = sdCardAvailable s"
  "littleFSAvailable (deactivateLED i s) = littleFSAvailable s"
  "audioOwner (deactivateLED i s) = audioOwner s"
  "serial (deactivateLED i s) = (if i < 4 then serial s @ [MsgLedOff i] else serial s)"
  by (simp_all add: deactivateLED_def)

subsection \<open>The audio channel\<close>

lemma stopAudio_eq:
  "stopAudio s = s\<lparr>wav := None, fileSD := None, fileLittleFS := None,
                   audioPlaying := False, audioOwner := None\<rparr>"
  by (cases s) (simp add: stopAudio_def Let_def)

lemma stopAudio_frame [simp]:
  "timers (stopAudio s) = timers s"
  "courtSettings (stopAudio s) = courtSettings s"
  "config (stopAudio s) = config s"
  "alarmStates (stopAudio s) = alarmStates s"
  "leds (stopAudio s) = leds s"
  "audioSystemReady (stopAudio s) = audioSystemReady s"
  "sdCardAvailable (stopAudio s) = sdCardAvailable s"
  "littleFSAvailable (stopAudio s) = littleFSAvailable s"
  "serial (stopAudio s) = serial s"
  "wav (stopAudio s) = None"
  "fileSD (stopAudio s) = None"
  "fileLittleFS (stopAudio s) = None"
  "audioPlaying (stopAudio s) = False"
  "audioOwner (stopAudio s) = None"
  by (simp_all add: stopAudio_eq)

lemma startClip_frame [simp]:
  "timers (startClip b p i s) = timers s"
  "courtSettings (startClip b p i s) = courtSettings s"
  "config (startClip b p i s) = config s"
  "alarmStates (startClip b p i s) = alarmStates s"
  "leds (startClip b p i s) = leds s"
  "audioSystemReady (startClip b p i s) = audioSystemReady s"
  "sdCardAvailable (startClip b p i s) = sdCardAvailable s"
  "littleFSAvailable (startClip b p i s) = littleFSAvailable s"
  "serial (startClip b p i s) = serial s"
  "wav (startClip b p i s) = Some AudioGeneratorWAV"
  "fileSD (startClip b p i s) = (if b = SD then Some p else fileSD s)"
  "fileLittleFS (startClip b p i s) = (if b = SD then fileLittleFS s else Some p)"
  "audioPlaying (startClip b p i s) = True"
  "audioOwner (startClip b p i s) = Some i"
  by (simp_all add: startClip_def)

lemma openClip_eq:
  "openClip env useSD dflt i p s =
    (if useSD then
       (if sdOpens env p then Some (say (MsgPlayingFrom SD dflt p) (startClip SD p i s))
        else None)
     else if littleFSAvailable s then
       (if lfsOpens env p
        then Some (say (MsgPlayingFrom LittleFS dflt p) (startClip LittleFS p i s))
        else None)
     else None)"
  by (simp add: openClip_def startClip_def sdOpens_def lfsOpens_def)

lemma two_attempts:
  "(case openClip env u False i p s of Some s2 \<Rightarrow> s2
    | None \<Rightarrow> (case openClip env u True i d s of Some s2 \<Rightarrow> s2 | None \<Rightarrow> say MsgNoAudioFile s))
   = (case pick env u (littleFSAvailable s) p d of
        None \<Rightarrow> say MsgNoAudioFile s
      | Some (b, dflt, q) \<Rightarrow> say (MsgPlayingFrom b dflt q) (startClip b q i s))"
  by (cases u; cases "littleFSAvailable s"; cases "sdOpens env p"; cases "sdOpens env d";
      cases "lfsOpens env p"; cases "lfsOpens env d"; simp add: openClip_eq pick_def)

lemma two_attempts_opens:
  "(openClip env u False i p s \<noteq> None \<or> openClip env u True i d s \<noteq> None)
   = (pick env u (littleFSAvailable s) p d \<noteq> None)"
  by (cases u; cases "littleFSAvailable s"; cases "sdOpens env p"; cases "sdOpens env d";
      cases "lfsOpens env p"; cases "lfsOpens env d"; simp add: openClip_eq pick_def)

lemma playAudio_eq:
  "playAudio env i w s =
    (if \<not> audioSystemReady s then say MsgNotReady s
     else case played env i w s of
            None \<Rightarrow> say MsgNoAudioFile (stopAudio s)
          | Some (b, dflt, p) \<Rightarrow> say (MsgPlayingFrom b dflt p) (startClip b p i (stopAudio s)))"
  unfolding playAudio_def Let_def played_def two_attempts stopAudio_frame ..

lemma clipOpens_eq: "clipOpens env i w s = (played env i w s \<noteq> None)"
  unfolding clipOpens_def Let_def played_def two_attempts_opens ..

lemma clipOpens_cong:
  "config s' = config s \<Longrightarrow> sdCardAvailable s' = sdCardAvailable s
   \<Longrightarrow> littleFSAvailable s' = littleFSAvailable s
   \<Longrightarrow> clipOpens env i w s' = clipOpens env i w s"
  by (simp add: clipOpens_eq played_def)

lemma playAudio_frame [simp]:
  "timers (playAudio env i w s) = timers s"
  "courtSettings (playAudio env i w s) = courtSettings s"
  "config (playAudio env i w s) = config s"
  "alarmStates (playAudio env i w s) = alarmStates s"
  "leds (playAudio env i w s) = leds s"
  "audioSystemReady (playAudio env i w s) = audioSystemReady s"
  "sdCardAvailable (playAudio env i w s) = sdCardAvailable s"
  "littleFSAvailable (playAudio env i w s) = littleFSAvailable s"
  by (simp_all add: playAudio_eq split: option.split)

lemma playAudio_channel:
  assumes "audioSystemReady s"
  shows "audioOwner (playAudio env i w s) = (if clipOpens env i w s then Some i else None)"
    and "audioPlaying (playAudio env i w s) = clipOpens env i w s"
    and "wav (playAudio env i w s) = (if clipOpens env i w s then Some AudioGeneratorWAV else None)"
    and "length (rendering (playAudio env i w s)) = (if clipOpens env i w s then 1 else 0)"
  using assms
  by (simp_all add: playAudio_eq clipOpens_eq rendering_def split: option.split)

lemma playAudio_not_ready:
  "\<not> audioSystemReady s \<Longrightarrow> playAudio env i w s = say MsgNotReady s"
  by (simp add: playAudio_eq)

subsection \<open>Triggering an alarm and the pass over the timers\<close>

lemma clipOpens_simps [simp]:
  "clipOpens env i w (say m s) = clipOpens env i w s"
  "clipOpens env i w (setTimer j f s) = clipOpens env i w s"
  "clipOpens env i w (setAlarm j g s) = clipOpens env i w s"
  "clipOpens env i w (activateLED j s) = clipOpens env i w s"
  "clipOpens env i w (deactivateLED j s) = clipOpens env i w s"
  "clipOpens env i w (stopAudio s) = clipOpens env i w s"
  "clipOpens env i w (playAudio env' j w' s) = clipOpens env i w s"
  by (rule clipOpens_cong; simp)+

lemma rendering_simps [simp]:
  "rendering (say m s) = rendering s"
  "rendering (setTimer j f s) = rendering s"
  "rendering (setAlarm j g s) = rendering s"
  "rendering (activateLED j s) = rendering s"
  "rendering (deactivateLED j s) = rendering s"
  "rendering (stopAudio s) = []"
  by (simp_all add: rendering_def)

lemma fired_simps [simp]:
  "fired m (say m' s) = (if m' = m then Suc (fired m s) else fired m s)"
  "fired m (setTimer j f s) = fired m s"
  "fired m (setAlarm j g s) = fired m s"
  "fired m (stopAudio s) = fired m s"
  "fired (MsgWarningAlarm c) (activateLED j s) = fired (MsgWarningAlarm c) s"
  "fired (MsgTimeUpAlarm c) (activateLED j s) = fired (MsgTimeUpAlarm c) s"
  "fired (MsgWarningAlarm c) (deactivateLED j s) = fired (MsgWarningAlarm c) s"
  "fired (MsgTimeUpAlarm c) (deactivateLED j s) = fired (MsgTimeUpAlarm c) s"
  "fired (MsgWarningAlarm c) (playAudio env j w s) = fired (MsgWarningAlarm c) s"
  "fired (MsgTimeUpAlarm c) (playAudio env j w s) = fired (MsgTimeUpAlarm c) s"
  by (simp_all add: fired_def playAudio_eq split: option.split)

lemma triggerAlarm_frame [simp]:
  "timers (triggerAlarm env m i d w s) = timers s"
  "courtSettings (triggerAlarm env m i d w s) = courtSettings s"
  "config (triggerAlarm env m i d w s) = config s"
  "audioSystemReady (triggerAlarm env m i d w s) = audioSystemReady s"
  "sdCardAvailable (triggerAlarm env m i d w s) = sdCardAvailable s"
  "littleFSAvailable (triggerAlarm env m i d w s) = littleFSAvailable s"
  "alarmStates (triggerAlarm env m i d w s) = (alarmStates s)(i :=
      (alarmStates s i)\<lparr>active := True, startTime_a := m, duration_a := d * 1000, isWarning := w,
       fieldIndex := i, looping := loopAlarm (courtSettings s i)\<rparr>)"
  "leds (triggerAlarm env m i d w s) = (if i < 4 then (leds s)(i := True) else leds s)"
  "fired (MsgWarningAlarm c) (triggerAlarm env m i d w s) = fired (MsgWarningAlarm c) s"
  "fired (MsgTimeUpAlarm c) (triggerAlarm env m i d w s) = fired (MsgTimeUpAlarm c) s"
  by (simp_all add: triggerAlarm_def Let_def)

lemma clipOpens_triggerAlarm [simp]:
  "clipOpens env' j w' (triggerAlarm env m i d w s) = clipOpens env' j w' s"
  by (rule clipOpens_cong; simp)

lemma triggerAlarm_channel:
  assumes "audioSystemReady s"
  shows "audioOwner (triggerAlarm env m i d w s) = (if clipOpens env i w s then Some i else None)"
    and "audioPlaying (triggerAlarm env m i d w s) = clipOpens env i w s"
    and "wav (triggerAlarm env m i d w s) = (if clipOpens env i w s then Some AudioGeneratorWAV else None)"
    and "length (rendering (triggerAlarm env m i d w s)) = (if clipOpens env i w s then 1 else 0)"
  using assms
  by (simp_all add: triggerAlarm_def Let_def playAudio_channel)

lemma updateTimers_court_eq:
  "updateTimers_court env now trig i s =
    (if \<not> advancing i s then s
     else
       let s1 = setTimer i (tickTimer now (warningTime (courtSettings s i))) s
       in if warningDue now i s
          then say (MsgWarningAlarm i)
                 (triggerAlarm env (trig i) i (warningDuration (config s)) True s1)
          else if expiryDue now i s
          then say (MsgTimeUpAlarm i)
                 (triggerAlarm env (trig i) i (alarmDuration (config s)) False s1)
          else s1)"
  by (auto simp: updateTimers_court_def advancing_def warningDue_def expiryDue_def Let_def
        tickTimer_def setTimer_def)

lemma tickTimer_idle: "\<not> running t \<or> paused t \<Longrightarrow> tickTimer now warn t = t"
  by (simp add: tickTimer_def)

lemma updateTimers_court_frame [simp]:
  "timers (updateTimers_court env now trig i s) =
     (timers s)(i := tickTimer now (warningTime (courtSettings s i)) (timers s i))"
  "courtSettings (updateTimers_court env now trig i s) = courtSettings s"
  "config (updateTimers_court env now trig i s) = config s"
  "audioSystemReady (updateTimers_court env now trig i s) = audioSystemReady s"
  "sdCardAvailable (updateTimers_court env now trig i s) = sdCardAvailable s"
  "littleFSAvailable (updateTimers_court env now trig i s) = littleFSAvailable s"
  by (simp_all add: updateTimers_court_eq Let_def advancing_def tickTimer_idle)

lemma fold_updateTimers_court_frame [simp]:
  "courtSettings (fold (updateTimers_court env now trig) cs s) = courtSettings s"
  "config (fold (updateTimers_court env now trig) cs s) = config s"
  "audioSystemReady (fold (updateTimers_court env now trig) cs s) = audioSystemReady s"
  "sdCardAvailable (fold (updateTimers_court env now trig) cs s) = sdCardAvailable s"
  "littleFSAvailable (fold (updateTimers_court env now trig) cs s) = littleFSAvailable s"
  by (induction cs arbitrary: s; simp)+

lemma fold_updateTimers_court_timers:
  "distinct cs \<Longrightarrow>
   timers (fold (updateTimers_court env now trig) cs s) c =
     (if c \<in> set cs then tickTimer now (warningTime (courtSettings s c)) (timers s c)
      else timers s c)"
  by (induction cs arbitrary: s) auto

lemma updateTimers_timers:
  "timers (updateTimers env now trig s) c =
     (if c < 4 then tickTimer now (warningTime (courtSettings s c)) (timers s c) else timers s c)"
  by (simp add: updateTimers_def fold_updateTimers_court_timers)

lemma updateTimers_frame [simp]:
  "courtSettings (updateTimers env now trig s) = courtSettings s"
  "config (updateTimers env now trig s) = config s"
  "audioSystemReady (updateTimers env now trig s) = audioSystemReady s"
  "sdCardAvailable (updateTimers env now trig s) = sdCardAvailable s"
  "littleFSAvailable (updateTimers env now trig s) = littleFSAvailable s"
  by (simp_all add: updateTimers_def)

lemma ex_started_timer:
  "timers ex_started 0 = \<lparr>running = True, paused = False, startTime = 0, pauseTime = 0,
     duration = 60000, remainingTime = 60, warningTriggered = False, alarmTriggered = False,
     playerName = ''A'', sessionCount = 1, totalPlayTime = 0\<rparr>"
  "courtSettings ex_started = ex_settings"
  by (simp_all add: ex_started_def handleStart_def ex_boot_def setup_fw_def)

text \<open>
  C9, evaluated. Court 0 runs for 60000 ms from clock reading 0. The pass at 59000
  leaves 1 second; the next pass, at 61000, comes after the end of the countdown: the
  unsigned difference \<open>duration - elapsed\<close> wraps, the test \<open>remaining < 0\<close> never
  holds, and the remaining time goes up to 4294966 seconds while the timer is still
  running and not paused.
\<close>

theorem C9_remaining_goes_up:
  "(let s1 = updateTimers storage_full 59000 (\<lambda>i. 59000) ex_started;
        s2 = updateTimers storage_full 61000 (\<lambda>i. 61000) s1
    in advancing 0 ex_started \<and> remainingTime (timers ex_started 0) = 60
       \<and> advancing 0 s1 \<and> remainingTime (timers s1 0) = 1
       \<and> advancing 0 s2 \<and> remainingTime (timers s2 0) = 4294966)"
  by (simp add: Let_def advancing_def updateTimers_timers ex_started_timer tickTimer_def
        remainingAt_def ex_settings_def)

subsection \<open>The SD card as the only backend\<close>

lemma played_sd:
  assumes "useSDCard (config s)" "sdCardAvailable s"
  shows "played env i w s =
     (if sdOpens env (audioFiles ! i ! (if w then 1 else 0))
        then Some (SD, False, audioFiles ! i ! (if w then 1 else 0))
      else if sdOpens env (defaultAudioFiles ! (if w then 1 else 0))
        then Some (SD, True, defaultAudioFiles ! (if w then 1 else 0))
      else None)"
  using assms unfolding played_def pick_def by simp

lemma played_lfs_irrelevant:
  assumes "useSDCard (config s)" "sdCardAvailable s"
  shows "played (env\<lparr>lfsExists := lx, lfsBegin := lb\<rparr>) i w (s\<lparr>littleFSAvailable := b\<rparr>)
          = played env i w s"
  using assms unfolding played_def pick_def sdOpens_def by simp

lemma playAudio_lfs_irrelevant:
  assumes "useSDCard (config s)" "sdCardAvailable s"
  shows "playAudio (env\<lparr>lfsExists := lx, lfsBegin := lb\<rparr>) i w (s\<lparr>littleFSAvailable := b\<rparr>)
          = (playAudio env i w s)\<lparr>littleFSAvailable := b\<rparr>"
  unfolding playAudio_eq played_lfs_irrelevant [OF assms]
  by (simp add: say_def startClip_def stopAudio_eq split: option.split)

text \<open>
  C10. With \<open>useSDCard\<close> set and the SD card mounted, \<open>playAudio\<close> never consults
  LittleFS: its result does not depend on what LittleFS holds, on whether a clip begins
  from it, or on whether LittleFS is mounted, and no LittleFS source is open afterwards.
  It plays the clip of the court from SD when that opens, otherwise the default clip
  from SD when that opens, and otherwise leaves the channel idle.
\<close>

theorem C10_sd_backend_only:
  assumes "audioSystemReady s" and "useSDCard (config s)" and "sdCardAvailable s"
  shows "(let p = audioFiles ! i ! (if isWarn then 1 else 0);
              d = defaultAudioFiles ! (if isWarn then 1 else 0);
              s' = playAudio env i isWarn s
          in (\<forall>lx lb b. playAudio (env\<lparr>lfsExists := lx, lfsBegin := lb\<rparr>) i isWarn
                          (s\<lparr>littleFSAvailable := b\<rparr>) = s'\<lparr>littleFSAvailable := b\<rparr>)
             \<and> fileLittleFS s' = None
             \<and> (sdExists env p \<and> sdBegin env p \<longrightarrow>
                  fileSD s' = Some p \<and> audioPlaying s' \<and> audioOwner s' = Some i)
             \<and> (\<not> (sdExists env p \<and> sdBegin env p) \<and> sdExists env d \<and> sdBegin env d \<longrightarrow>
                  fileSD s' = Some d \<and> audioPlaying s' \<and> audioOwner s' = Some i)
             \<and> (\<not> (sdExists env p \<and> sdBegin env p) \<and> \<not> (sdExists env d \<and> sdBegin env d) \<longrightarrow>
                  \<not> audioPlaying s' \<and> wav s' = None \<and> fileSD s' = None
                  \<and> audioOwner s' = None \<and> rendering s' = []))"
proof -
  define p where "p = audioFiles ! i ! (if isWarn then 1 else 0)"
  define d where "d = defaultAudioFiles ! (if isWarn then 1 else 0)"
  have pl: "played env i isWarn s =
      (if sdOpens env p then Some (SD, False, p)
       else if sdOpens env d then Some (SD, True, d) else None)"
    unfolding p_def d_def by (rule played_sd [OF assms(2,3)])
  have pa: "playAudio env i isWarn s =
      (case played env i isWarn s of
         None \<Rightarrow> say MsgNoAudioFile (stopAudio s)
       | Some (b, dflt, q) \<Rightarrow> say (MsgPlayingFrom b dflt q) (startClip b q i (stopAudio s)))"
    using assms(1) by (simp add: playAudio_eq)
  have "fileLittleFS (playAudio env i isWarn s) = None"
    unfolding pa pl by simp
  moreover have "sdOpens env p \<Longrightarrow> fileSD (playAudio env i isWarn s) = Some p
      \<and> audioPlaying (playAudio env i isWarn s) \<and> audioOwner (playAudio env i isWarn s) = Some i"
    unfolding pa pl by simp
  moreover have "\<not> sdOpens env p \<Longrightarrow> sdOpens env d \<Longrightarrow> fileSD (playAudio env i isWarn s) = Some d
      \<and> audioPlaying (playAudio env i isWarn s) \<and> audioOwner (playAudio env i isWarn s) = Some i"
    unfolding pa pl by simp
  moreover have "\<not> sdOpens env p \<Longrightarrow> \<not> sdOpens env d \<Longrightarrow>
      \<not> audioPlaying (playAudio env i isWarn s) \<and> wav (playAudio env i isWarn s) = None
      \<and> fileSD (playAudio env i isWarn s) = None \<and> audioOwner (playAudio env i isWarn s) = None
      \<and> rendering (playAudio env i isWarn s) = []"
    unfolding pa pl by simp
  ultimately show ?thesis
    unfolding Let_def p_def [symmetric] d_def [symmetric]
    using playAudio_lfs_irrelevant [OF assms(2,3)]
    by (simp add: sdOpens_def)
qed

theorem C10_sd_backend_only_witness:
  "audioSystemReady ex_boot \<and> useSDCard (config ex_boot) \<and> sdCardAvailable ex_boot
   \<and> littleFSAvailable ex_boot
   \<and> lfsExists storage_lfs_only ''/audio/alarm1.wav'' \<and> lfsBegin storage_lfs_only ''/audio/alarm1.wav''
   \<and> \<not> sdExists storage_lfs_only ''/audio/alarm1.wav'' \<and> \<not> sdExists storage_lfs_only ''/audio/alarm.wav''
   \<and> \<not> audioPlaying (playAudio storage_lfs_only 0 False ex_boot)
   \<and> fileLittleFS (playAudio storage_lfs_only 0 False ex_boot) = None
   \<and> rendering (playAudio storage_lfs_only 0 False ex_boot) = []"
proof -
  have h: "audioSystemReady ex_boot" "useSDCard (config ex_boot)" "sdCardAvailable ex_boot"
    by (simp_all add: ex_boot_def setup_fw_def ex_config_def)
  show ?thesis
    using h C10_sd_backend_only [OF h, where env = storage_lfs_only and i = 0 and isWarn = False,
            unfolded Let_def, THEN conjunct2]
    by (simp add: storage_lfs_only_def audioFiles_def defaultAudioFiles_def)
      (simp add: ex_boot_def setup_fw_def)
qed

subsection \<open>The request handlers\<close>

lemma handleStop_valid:
  "0 \<le> courtId \<Longrightarrow> courtId < 4 \<Longrightarrow>
   handleStop (Json courtId) s =
     (200, say (MsgCourtStopped (nat courtId))
        (stopAudio (deactivateLED (nat courtId)
          (setTimer (nat courtId)
            (\<lambda>t. t\<lparr>running := False, paused := False, remainingTime := 0\<rparr>) s))))"
  by (simp add: handleStop_def Let_def)

lemma handleStart_valid:
  "0 \<le> courtId \<Longrightarrow> courtId < 4 \<Longrightarrow>
   handleStart (Json (courtId, dur, name)) millis s =
     (200, say (MsgCourtStarted (nat courtId) dur)
        (setTimer (nat courtId)
          (\<lambda>t. t\<lparr>running := True, paused := False, startTime := millis,
                 duration := dur * 60 * 1000, remainingTime := dur * 60,
                 warningTriggered := False, alarmTriggered := False,
                 playerName := name, sessionCount := sessionCount t + 1\<rparr>) s))"
  by (simp add: handleStart_def)

lemma ex_boot_simps [simp]:
  "audioSystemReady ex_boot" "useSDCard (config ex_boot)" "sdCardAvailable ex_boot"
  "littleFSAvailable ex_boot" "leds ex_boot = (\<lambda>i. False)" "audioOwner ex_boot = None"
  "\<not> audioPlaying ex_boot" "config ex_boot = ex_config" "courtSettings ex_boot = ex_settings"
  "alarmStates ex_boot = (\<lambda>i. \<lparr>active = False, startTime_a = 0, duration_a = 0,
                          isWarning = False, fieldIndex = i, looping = False\<rparr>)"
  "timers ex_boot = (\<lambda>i. \<lparr>running = False, paused = False, startTime = 0, pauseTime = 0,
                     duration = 0, remainingTime = 0, warningTriggered = False,
                     alarmTriggered = False, playerName = [], sessionCount = 0,
                     totalPlayTime = 0\<rparr>)"
  "serial ex_boot = []"
  by (simp_all add: ex_boot_def setup_fw_def ex_config_def)

lemma clipOpens_full [simp]:
  "useSDCard (config s) \<and> sdCardAvailable s \<or> littleFSAvailable s \<Longrightarrow> clipOpens storage_full i w s"
  by (auto simp: clipOpens_eq played_def pick_def sdOpens_def lfsOpens_def storage_full_def)

lemma clipOpens_empty [simp]: "\<not> clipOpens storage_empty i w s"
  by (simp add: clipOpens_eq played_def pick_def sdOpens_def lfsOpens_def storage_empty_def)

subsection \<open>The LEDs and the active flags\<close>

text \<open>
  Start-up, raising an alarm and both update passes keep every LED equal to the active
  flag of its court; \<open>handleStop\<close> does not.
\<close>

lemma ledOk_setup: "ledOk (setup_fw sdOk lfsOk cfg cs)"
  by (simp add: ledOk_def setup_fw_def)

lemma ledOk_triggerAlarm: "ledOk s \<Longrightarrow> ledOk (triggerAlarm env m i d w s)"
  by (simp add: ledOk_def)

lemma ledOk_updateTimers_court: "ledOk s \<Longrightarrow> ledOk (updateTimers_court env now trig i s)"
  by (simp add: updateTimers_court_eq Let_def ledOk_triggerAlarm) (simp add: ledOk_def)

lemma ledOk_updateTimers: "ledOk s \<Longrightarrow> ledOk (updateTimers env now trig s)"
  unfolding updateTimers_def
  by (rule fold_preserves [where P = ledOk]) (simp_all add: ledOk_updateTimers_court)

lemma ledOk_updateAlarms_court: "ledOk s \<Longrightarrow> ledOk (updateAlarms_court env now i s)"
  by (simp add: updateAlarms_court_def Let_def ledOk_def)

lemma ledOk_updateAlarms: "ledOk s \<Longrightarrow> ledOk (updateAlarms env now s)"
  unfolding updateAlarms_def
  by (rule fold_preserves [where P = ledOk]) (simp_all add: ledOk_updateAlarms_court)

lemma ledOk_broken_by_stop: "ledOk ex_alarm2 \<and> \<not> ledOk (snd (handleStop (Json 2) ex_alarm2))"
  by (simp add: ledOk_def handleStop_valid ex_alarm2_def)

text \<open>
  C5, evaluated. The alarm of court 2 is raised (alarm active, LED on) and then court 2
  is stopped: \<open>handleStop\<close> turns the LED off and does not write \<open>alarmStates\<close>, so
  the alarm stays active with its LED off.
\<close>

theorem C5_stop_leaves_alarm_active:
  "active (alarmStates ex_alarm2 2) \<and> leds ex_alarm2 2
   \<and> fst (handleStop (Json 2) ex_alarm2) = 200
   \<and> active (alarmStates (snd (handleStop (Json 2) ex_alarm2)) 2)
   \<and> \<not> leds (snd (handleStop (Json 2) ex_alarm2)) 2"
  by (simp add: handleStop_valid ex_alarm2_def)

text \<open>
  C6, as stated, fails: a Start request for court 0 with duration 0 is answered with
  200 and starts the timer.
\<close>

theorem C6_counterexample:
  "fst (handleStart (Json (0, 0, ''A'')) 7 ex_boot) = 200
   \<and> running (timers (snd (handleStart (Json (0, 0, ''A'')) 7 ex_boot)) 0)
   \<and> \<not> running (timers ex_boot 0)
   \<and> sessionCount (timers (snd (handleStart (Json (0, 0, ''A'')) 7 ex_boot)) 0) = 1
   \<and> sessionCount (timers ex_boot 0) = 0"
  by (simp add: handleStart_valid)

text \<open>
  C6, amended. \<open>handleStart\<close> validates the body and the court index only. A request
  with no body, with a body that is not JSON, or with a court index outside 0..3 is
  answered with 400 and the state is unchanged. Every other request, whatever its
  duration, is answered with 200: the timer of the court is running and not paused,
  \<open>startTime\<close> is the clock reading, \<open>duration\<close> is the request's minutes times 60000
  (modulo 2^32), \<open>remainingTime\<close> the minutes times 60, both latches are cleared, the
  player name is stored and \<open>sessionCount\<close> is incremented; \<open>pauseTime\<close> and
  \<open>totalPlayTime\<close> and the timers of the other courts are unchanged.
\<close>

theorem C6_start_validates_court_only:
  "handleStart NoBody millis s = (400, s)
   \<and> handleStart InvalidJson millis s = (400, s)
   \<and> (courtId < 0 \<or> 4 \<le> courtId \<longrightarrow> handleStart (Json (courtId, dur, name)) millis s = (400, s))
   \<and> (0 \<le> courtId \<and> courtId < 4 \<longrightarrow>
        fst (handleStart (Json (courtId, dur, name)) millis s) = 200
        \<and> timers (snd (handleStart (Json (courtId, dur, name)) millis s)) (nat courtId) =
            (timers s (nat courtId))\<lparr>running := True, paused := False, startTime := millis,
               duration := dur * 60 * 1000, remainingTime := dur * 60,
               warningTriggered := False, alarmTriggered := False, playerName := name,
               sessionCount := sessionCount (timers s (nat courtId)) + 1\<rparr>
        \<and> (\<forall>c. c \<noteq> nat courtId \<longrightarrow>
              timers (snd (handleStart (Json (courtId, dur, name)) millis s)) c = timers s c))"
  by (simp add: handleStart_valid) (simp add: handleStart_def)

theorem C6_start_validates_court_only_witness:
  "handleStart (Json (4, 10, ''A'')) 7 ex_boot = (400, ex_boot)
   \<and> handleStart (Json (- 1, 10, ''A'')) 7 ex_boot = (400, ex_boot)
   \<and> fst (handleStart (Json (3, 10, ''A'')) 7 ex_boot) = 200
   \<and> duration (timers (snd (handleStart (Json (3, 10, ''A'')) 7 ex_boot)) 3) = 600000
   \<and> startTime (timers (snd (handleStart (Json (3, 10, ''A'')) 7 ex_boot)) 3) = 7
   \<and> timers (snd (handleStart (Json (3, 10, ''A'')) 7 ex_boot)) 0 = timers ex_boot 0"
  using C6_start_validates_court_only [where courtId = 4 and dur = 10 and name = "''A''" and millis = 7 and s = ex_boot]
        C6_start_validates_court_only [where courtId = "- 1" and dur = 10 and name = "''A''" and millis = 7 and s = ex_boot]
        C6_start_validates_court_only [where courtId = 3 and dur = 10 and name = "''A''" and millis = 7 and s = ex_boot]
  by simp

lemma ex_config_simps [simp]:
  "useSDCard ex_config" "alarmDuration ex_config = 12" "warningDuration ex_config = 8"
  by (simp_all add: ex_config_def)

lemma ex_settings_simps [simp]:
  "warningTime (ex_settings i) = 5" "\<not> loopAlarm (ex_settings i)"
  by (simp_all add: ex_settings_def)

lemma nat_court: "0 \<le> courtId \<Longrightarrow> courtId < 4 \<Longrightarrow> nat courtId < 4"
  by simp

lemma ex_alarm2_simps [simp]:
  "audioSystemReady ex_alarm2" "audioPlaying ex_alarm2" "audioOwner ex_alarm2 = Some 2"
  "active (alarmStates ex_alarm2 2)" "leds ex_alarm2 2"
  "useSDCard (config ex_alarm2)" "sdCardAvailable ex_alarm2"
  by (simp_all add: ex_alarm2_def triggerAlarm_channel)

lemma ex_alarm2_then_0_simps [simp]:
  "audioSystemReady ex_alarm2_then_0" "audioPlaying ex_alarm2_then_0"
  "audioOwner ex_alarm2_then_0 = Some 0"
  "active (alarmStates ex_alarm2_then_0 2)" "leds ex_alarm2_then_0 2"
  "active (alarmStates ex_alarm2_then_0 0)" "leds ex_alarm2_then_0 0"
  by (simp_all add: ex_alarm2_then_0_def triggerAlarm_channel)

text \<open>
  C1, as stated, fails twice. Court 2 is stopped while its alarm is active and it has
  the channel: its alarm stays active. Court 2 is stopped while its alarm is active and
  court 0, also alarming, has the channel: the clip of court 0 is stopped.
\<close>

theorem C1_counterexample:
  "active (alarmStates ex_alarm2 2) \<and> audioOwner ex_alarm2 = Some 2
   \<and> active (alarmStates (snd (handleStop (Json 2) ex_alarm2)) 2)
   \<and> active (alarmStates ex_alarm2_then_0 2) \<and> active (alarmStates ex_alarm2_then_0 0)
   \<and> audioOwner ex_alarm2_then_0 = Some 0 \<and> audioPlaying ex_alarm2_then_0
   \<and> \<not> audioPlaying (snd (handleStop (Json 2) ex_alarm2_then_0))
   \<and> audioOwner (snd (handleStop (Json 2) ex_alarm2_then_0)) = None"
  by (simp add: handleStop_valid)

text \<open>
  C1, amended. For every court index in 0..3, \<open>handleStop\<close> answers 200, turns the LED
  of the court off, sets its timer idle (not running, not paused, no time remaining)
  and leaves the audio channel idle whichever court's clip was playing. The alarm
  state, the LED and the timer of every other court are unchanged.
\<close>

theorem C1_stop_court:
  assumes "0 \<le> courtId" and "courtId < 4"
  shows "fst (handleStop (Json courtId) s) = 200
    \<and> \<not> leds (snd (handleStop (Json courtId) s)) (nat courtId)
    \<and> \<not> audioPlaying (snd (handleStop (Json courtId) s))
    \<and> audioOwner (snd (handleStop (Json courtId) s)) = None
    \<and> wav (snd (handleStop (Json courtId) s)) = None
    \<and> rendering (snd (handleStop (Json courtId) s)) = []
    \<and> timers (snd (handleStop (Json courtId) s)) (nat courtId) =
         (timers s (nat courtId))\<lparr>running := False, paused := False, remainingTime := 0\<rparr>
    \<and> (\<forall>c. c \<noteq> nat courtId \<longrightarrow>
          alarmStates (snd (handleStop (Json courtId) s)) c = alarmStates s c
          \<and> leds (snd (handleStop (Json courtId) s)) c = leds s c
          \<and> timers (snd (handleStop (Json courtId) s)) c = timers s c)"
  using assms nat_court [OF assms] by (simp add: handleStop_valid)

theorem C1_stop_court_witness:
  "fst (handleStop (Json 2) ex_alarm2_then_0) = 200
   \<and> \<not> leds (snd (handleStop (Json 2) ex_alarm2_then_0)) 2
   \<and> \<not> audioPlaying (snd (handleStop (Json 2) ex_alarm2_then_0))
   \<and> active (alarmStates (snd (handleStop (Json 2) ex_alarm2_then_0)) 0)
   \<and> leds (snd (handleStop (Json 2) ex_alarm2_then_0)) 0"
  using C1_stop_court [where courtId = 2 and s = ex_alarm2_then_0]
  by simp

subsection \<open>The pass over the alarms\<close>

lemma updateAlarms_court_frame [simp]:
  "timers (updateAlarms_court env now i s) = timers s"
  "courtSettings (updateAlarms_court env now i s) = courtSettings s"
  "config (updateAlarms_court env now i s) = config s"
  "audioSystemReady (updateAlarms_court env now i s) = audioSystemReady s"
  "sdCardAvailable (updateAlarms_court env now i s) = sdCardAvailable s"
  "littleFSAvailable (updateAlarms_court env now i s) = littleFSAvailable s"
  "fired (MsgWarningAlarm c) (updateAlarms_court env now i s) = fired (MsgWarningAlarm c) s"
  "fired (MsgTimeUpAlarm c) (updateAlarms_court env now i s) = fired (MsgTimeUpAlarm c) s"
  by (simp_all add: updateAlarms_court_def Let_def)

lemma updateAlarms_frame [simp]:
  "timers (updateAlarms env now s) = timers s"
  "courtSettings (updateAlarms env now s) = courtSettings s"
  "config (updateAlarms env now s) = config s"
  "audioSystemReady (updateAlarms env now s) = audioSystemReady s"
  "sdCardAvailable (updateAlarms env now s) = sdCardAvailable s"
  "littleFSAvailable (updateAlarms env now s) = littleFSAvailable s"
  "fired (MsgWarningAlarm c) (updateAlarms env now s) = fired (MsgWarningAlarm c) s"
  "fired (MsgTimeUpAlarm c) (updateAlarms env now s) = fired (MsgTimeUpAlarm c) s"
  by (simp_all add: updateAlarms_def upt4)

lemma updateAudioPlayback_frame [simp]:
  "timers (updateAudioPlayback r l s) = timers s"
  "courtSettings (updateAudioPlayback r l s) = courtSettings s"
  "config (updateAudioPlayback r l s) = config s"
  "alarmStates (updateAudioPlayback r l s) = alarmStates s"
  "leds (updateAudioPlayback r l s) = leds s"
  "audioSystemReady (updateAudioPlayback r l s) = audioSystemReady s"
  "sdCardAvailable (updateAudioPlayback r l s) = sdCardAvailable s"
  "littleFSAvailable (updateAudioPlayback r l s) = littleFSAvailable s"
  "fired m (updateAudioPlayback r l s) = fired m s"
  by (simp_all add: updateAudioPlayback_def)

subsection \<open>Invariants of the reachable states\<close>

lemma exec_ready [simp]: "audioSystemReady (exec op s) = audioSystemReady s"
  by (cases op)
    (simp_all add: handleStart_def handlePause_def handleStop_def handleSettings_def
       handleSetDuration_def handleGlobalVolume_def Let_def split: body.split prod.split)

lemma run_ready [simp]: "audioSystemReady (run ops s) = audioSystemReady s"
  unfolding run_def by (induction ops arbitrary: s) simp_all

lemma ready_reachable: "audioSystemReady (run ops (setup_fw sdOk lfsOk cfg cs))"
  by (simp add: setup_fw_def)

lemma channelOk_cong:
  "audioPlaying s' = audioPlaying s \<Longrightarrow> wav s' = wav s \<Longrightarrow> fileSD s' = fileSD s
   \<Longrightarrow> fileLittleFS s' = fileLittleFS s \<Longrightarrow> audioOwner s' = audioOwner s
   \<Longrightarrow> channelOk s' = channelOk s"
  by (simp add: channelOk_def rendering_def)

lemma channelOk_simps [simp]:
  "channelOk (say m s) = channelOk s"
  "channelOk (setTimer j f s) = channelOk s"
  "channelOk (setAlarm j g s) = channelOk s"
  "channelOk (activateLED j s) = channelOk s"
  "channelOk (deactivateLED j s) = channelOk s"
  "channelOk (stopAudio s)"
  "channelOk (startClip b p i (stopAudio s))"
  by (simp_all add: channelOk_def rendering_def)

lemma channelOk_playAudio: "channelOk s \<Longrightarrow> channelOk (playAudio env i w s)"
  by (simp add: playAudio_eq split: option.split)

lemma channelOk_triggerAlarm: "channelOk s \<Longrightarrow> channelOk (triggerAlarm env m i d w s)"
  by (simp add: triggerAlarm_def Let_def channelOk_playAudio)

lemma channelOk_updateTimers_court: "channelOk s \<Longrightarrow> channelOk (updateTimers_court env now trig i s)"
  by (simp add: updateTimers_court_eq Let_def channelOk_triggerAlarm)

lemma channelOk_updateAlarms_court: "channelOk s \<Longrightarrow> channelOk (updateAlarms_court env now i s)"
  by (simp add: updateAlarms_court_def Let_def channelOk_playAudio)

lemma channelOk_updateAudioPlayback: "channelOk s \<Longrightarrow> channelOk (updateAudioPlayback r l s)"
  by (simp add: updateAudioPlayback_def)

lemma channelOk_exec: "channelOk s \<Longrightarrow> channelOk (exec op s)"
proof (cases op)
  case (TimerTick env now trig)
  then show "channelOk s \<Longrightarrow> ?thesis"
    by (simp add: updateTimers_def fold_preserves [where P = channelOk] channelOk_updateTimers_court)
next
  case (AlarmTick env now)
  then show "channelOk s \<Longrightarrow> ?thesis"
    by (simp add: updateAlarms_def fold_preserves [where P = channelOk] channelOk_updateAlarms_court)
qed (simp_all add: handleStart_def handlePause_def handleStop_def handleSettings_def
       handleSetDuration_def handleGlobalVolume_def Let_def channelOk_updateAudioPlayback
       channelOk_cong [of "s\<lparr>courtSettings := x\<rparr>" s for x]
       channelOk_cong [of "s\<lparr>config := x\<rparr>" s for x]
       split: body.split prod.split)

lemma channelOk_run: "channelOk s \<Longrightarrow> channelOk (run ops s)"
  unfolding run_def by (induction ops arbitrary: s) (simp_all add: channelOk_exec)

lemma channelOk_reachable: "channelOk (run ops (setup_fw sdOk lfsOk cfg cs))"
  by (rule channelOk_run) (simp add: channelOk_def setup_fw_def rendering_def)

lemma updateTimers_unfold:
  "updateTimers env now trig s =
    updateTimers_court env now trig 3 (updateTimers_court env now trig 2
      (updateTimers_court env now trig 1 (updateTimers_court env now trig 0 s)))"
  by (simp add: updateTimers_def upt4 numeral_3_eq_3)

lemma updateAlarms_unfold:
  "updateAlarms env now s =
    updateAlarms_court env now 3 (updateAlarms_court env now 2
      (updateAlarms_court env now 1 (updateAlarms_court env now 0 s)))"
  by (simp add: updateAlarms_def upt4 numeral_3_eq_3)

lemma updateTimers_court_idle:
  "\<not> advancing i s \<Longrightarrow> updateTimers_court env now trig i s = s"
  by (simp add: updateTimers_court_eq)

lemma ex_run_expired2_eq:
  "run ex_run_expired2 ex_boot =
    say (MsgTimeUpAlarm 2)
      (triggerAlarm storage_full 60000 2 12 False
        (setTimer 2 (tickTimer 60000 5)
          (snd (handleStart (Json (2, 1, ''A'')) 0 ex_boot))))"
proof -
  define s0 where "s0 = snd (handleStart (Json (2, 1, ''A'')) 0 ex_boot)"
  have t: "timers s0 = (timers ex_boot)(2 := \<lparr>running = True, paused = False, startTime = 0,
      pauseTime = 0, duration = 60000, remainingTime = 60, warningTriggered = False,
      alarmTriggered = False, playerName = ''A'', sessionCount = 1, totalPlayTime = 0\<rparr>)"
    and c: "courtSettings s0 = ex_settings" "config s0 = ex_config"
    by (simp_all add: s0_def handleStart_valid)
  have a: "\<not> advancing 0 s0" "\<not> advancing 1 s0" "advancing 2 s0"
    by (simp_all add: advancing_def t)
  have d: "\<not> warningDue 60000 2 s0" "expiryDue 60000 2 s0"
    by (simp_all add: warningDue_def expiryDue_def advancing_def t remainingAt_def)
  define s2 where "s2 = updateTimers_court storage_full 60000 (\<lambda>i. 60000) 2 s0"
  have s2: "s2 = say (MsgTimeUpAlarm 2)
      (triggerAlarm storage_full 60000 2 12 False (setTimer 2 (tickTimer 60000 5) s0))"
    by (simp add: s2_def updateTimers_court_eq a d c Let_def)
  have a3: "\<not> advancing 3 s2"
    by (simp add: s2 advancing_def t)
  have "run ex_run_expired2 ex_boot = updateTimers storage_full 60000 (\<lambda>i. 60000) s0"
    by (simp add: ex_run_expired2_def run_def s0_def)
  also have "\<dots> = updateTimers_court storage_full 60000 (\<lambda>i. 60000) 3 s2"
    unfolding updateTimers_unfold s2_def
    by (simp only: updateTimers_court_idle [OF a(1)] updateTimers_court_idle [OF a(2)])
  also have "\<dots> = s2"
    by (rule updateTimers_court_idle [OF a3])
  finally show ?thesis
    unfolding s2 s0_def .
qed

lemma clipOpens_alarm3_only:
  "clipOpens storage_alarm3_only 2 False ex_boot" "\<not> clipOpens storage_alarm3_only 0 False ex_boot"
  by (simp_all add: clipOpens_eq played_def pick_def sdOpens_def lfsOpens_def
        storage_alarm3_only_def audioFiles_def defaultAudioFiles_def)

text \<open>
  C2, as stated, fails. The SD card holds the expiry clip of court 2 only, and that clip
  is playing for court 2. The alarm of court 0 is raised: the clip of court 2 is
  stopped, no clip opens for court 0, and the channel is idle; court 0 does not own it.
\<close>

theorem C2_counterexample:
  "audioPlaying ex_alarm2_sole_clip \<and> audioOwner ex_alarm2_sole_clip = Some 2
   \<and> fileSD ex_alarm2_sole_clip = Some ''/audio/alarm3.wav''
   \<and> \<not> audioPlaying (triggerAlarm storage_alarm3_only 6000 0 12 False ex_alarm2_sole_clip)
   \<and> audioOwner (triggerAlarm storage_alarm3_only 6000 0 12 False ex_alarm2_sole_clip) = None
   \<and> active (alarmStates (triggerAlarm storage_alarm3_only 6000 0 12 False ex_alarm2_sole_clip) 0)
   \<and> leds (triggerAlarm storage_alarm3_only 6000 0 12 False ex_alarm2_sole_clip) 0"
proof -
  have c: "clipOpens storage_alarm3_only 2 False ex_alarm2_sole_clip = clipOpens storage_alarm3_only 2 False ex_boot"
    "clipOpens storage_alarm3_only 0 False ex_alarm2_sole_clip = clipOpens storage_alarm3_only 0 False ex_boot"
    by (simp_all add: ex_alarm2_sole_clip_def)
  have f: "fileSD ex_alarm2_sole_clip = Some ''/audio/alarm3.wav''"
    by (simp add: ex_alarm2_sole_clip_def triggerAlarm_def Let_def playAudio_eq played_def
          pick_def sdOpens_def storage_alarm3_only_def audioFiles_def)
  have r: "audioSystemReady ex_alarm2_sole_clip"
    by (simp add: ex_alarm2_sole_clip_def)
  show ?thesis
    using f by (simp add: triggerAlarm_channel [OF r] c clipOpens_alarm3_only)
      (simp add: ex_alarm2_sole_clip_def triggerAlarm_channel clipOpens_alarm3_only)
qed

lemma channelOk_one_clip: "channelOk s \<Longrightarrow> length (rendering s) \<le> 1"
  by (simp add: channelOk_def split: if_splits)

lemma channelOk_mid_pass:
  "channelOk s \<Longrightarrow> channelOk (fold (updateTimers_court env now trig) js s)"
  "channelOk s \<Longrightarrow> channelOk (fold (updateAlarms_court env now) js s)"
  by (rule fold_preserves [where P = channelOk];
      simp add: channelOk_updateTimers_court channelOk_updateAlarms_court)+

text \<open>
  C2, amended. At most one clip has a source open in every state the firmware reaches
  after start-up, between two operations and also part-way through a pass over the
  timers or over the alarms. When the alarm of court B is raised, in any state in which
  the audio system is ready and whatever is playing, the clip that was playing is
  stopped; the channel goes to court B when the clip of court B or the default clip
  opens on the selected backend, and is left idle otherwise. For every court A, a LED
  that is on stays on and an active alarm stays active; for A other than B, the alarm
  state and the LED of court A are untouched and court A does not own the channel
  afterwards.
\<close>

theorem C2_one_clip_and_preemption:
  assumes "audioSystemReady s"
  shows "length (rendering (run ops (setup_fw sdOk lfsOk cfg cs))) \<le> 1
    \<and> length (rendering (fold (updateTimers_court env' now trig) js
          (run ops (setup_fw sdOk lfsOk cfg cs)))) \<le> 1
    \<and> length (rendering (fold (updateAlarms_court env' now) js
          (run ops (setup_fw sdOk lfsOk cfg cs)))) \<le> 1
    \<and> length (rendering (triggerAlarm env millis B dur isWarn s)) \<le> 1
    \<and> (if clipOpens env B isWarn s
        then audioPlaying (triggerAlarm env millis B dur isWarn s)
             \<and> audioOwner (triggerAlarm env millis B dur isWarn s) = Some B
             \<and> length (rendering (triggerAlarm env millis B dur isWarn s)) = 1
        else \<not> audioPlaying (triggerAlarm env millis B dur isWarn s)
             \<and> audioOwner (triggerAlarm env millis B dur isWarn s) = None
             \<and> rendering (triggerAlarm env millis B dur isWarn s) = [])
    \<and> (leds s A \<longrightarrow> leds (triggerAlarm env millis B dur isWarn s) A)
    \<and> (active (alarmStates s A) \<longrightarrow> active (alarmStates (triggerAlarm env millis B dur isWarn s) A))
    \<and> (A \<noteq> B \<longrightarrow>
          audioOwner (triggerAlarm env millis B dur isWarn s) \<noteq> Some A
          \<and> alarmStates (triggerAlarm env millis B dur isWarn s) A = alarmStates s A
          \<and> leds (triggerAlarm env millis B dur isWarn s) A = leds s A)"
proof -
  let ?u = "run ops (setup_fw sdOk lfsOk cfg cs)"
  have ok: "channelOk ?u"
    by (rule channelOk_reachable)
  have one: "length (rendering ?u) \<le> 1"
    "length (rendering (fold (updateTimers_court env' now trig) js ?u)) \<le> 1"
    "length (rendering (fold (updateAlarms_court env' now) js ?u)) \<le> 1"
    by (rule channelOk_one_clip, rule ok)
      (rule channelOk_one_clip, rule channelOk_mid_pass, rule ok)+
  have idle: "rendering (triggerAlarm env millis B dur isWarn s) = []"
    if "\<not> clipOpens env B isWarn s"
    using triggerAlarm_channel(4) [OF assms, of env millis B dur isWarn] that by simp
  have pre: "length (rendering (triggerAlarm env millis B dur isWarn s)) \<le> 1
    \<and> (if clipOpens env B isWarn s
        then audioPlaying (triggerAlarm env millis B dur isWarn s)
             \<and> audioOwner (triggerAlarm env millis B dur isWarn s) = Some B
             \<and> length (rendering (triggerAlarm env millis B dur isWarn s)) = 1
        else \<not> audioPlaying (triggerAlarm env millis B dur isWarn s)
             \<and> audioOwner (triggerAlarm env millis B dur isWarn s) = None
             \<and> rendering (triggerAlarm env millis B dur isWarn s) = [])
    \<and> (leds s A \<longrightarrow> leds (triggerAlarm env millis B dur isWarn s) A)
    \<and> (active (alarmStates s A) \<longrightarrow> active (alarmStates (triggerAlarm env millis B dur isWarn s) A))
    \<and> (A \<noteq> B \<longrightarrow>
          audioOwner (triggerAlarm env millis B dur isWarn s) \<noteq> Some A
          \<and> alarmStates (triggerAlarm env millis B dur isWarn s) A = alarmStates s A
          \<and> leds (triggerAlarm env millis B dur isWarn s) A = leds s A)"
    using idle by (simp add: triggerAlarm_channel [OF assms])
  show ?thesis
    using one pre by blast
qed

theorem C2_one_clip_and_preemption_witness:
  "audioSystemReady (run ex_run_expired2 ex_boot)
   \<and> audioPlaying (run ex_run_expired2 ex_boot)
   \<and> audioOwner (run ex_run_expired2 ex_boot) = Some 2
   \<and> length (rendering (run ex_run_expired2 ex_boot)) \<le> 1
   \<and> audioOwner (triggerAlarm storage_full 61000 0 12 False (run ex_run_expired2 ex_boot)) = Some 0
   \<and> audioOwner (triggerAlarm storage_empty 61000 0 12 False (run ex_run_expired2 ex_boot)) = None
   \<and> leds (triggerAlarm storage_full 61000 0 12 False (run ex_run_expired2 ex_boot)) 2
   \<and> active (alarmStates (triggerAlarm storage_full 61000 0 12 False (run ex_run_expired2 ex_boot)) 2)"
proof -
  have r: "audioSystemReady (run ex_run_expired2 ex_boot)"
    by simp
  have p: "audioPlaying (run ex_run_expired2 ex_boot)"
    "audioOwner (run ex_run_expired2 ex_boot) = Some 2"
    "leds (run ex_run_expired2 ex_boot) 2"
    "active (alarmStates (run ex_run_expired2 ex_boot) 2)"
    "useSDCard (config (run ex_run_expired2 ex_boot))"
    "sdCardAvailable (run ex_run_expired2 ex_boot)"
    by (simp_all add: ex_run_expired2_eq triggerAlarm_channel handleStart_valid)
  have e: "setup_fw True True ex_config ex_settings = ex_boot"
    by (simp add: ex_boot_def)
  show ?thesis
    using r p
      C2_one_clip_and_preemption [OF r, where A = 2 and B = 0 and env = storage_full
        and millis = 61000 and dur = 12 and isWarn = False and ops = ex_run_expired2
        and sdOk = True and lfsOk = True and cfg = ex_config and cs = ex_settings
        and js = "[]", unfolded e]
      C2_one_clip_and_preemption [OF r, where A = 2 and B = 0 and env = storage_empty
        and millis = 61000 and dur = 12 and isWarn = False and ops = ex_run_expired2
        and sdOk = True and lfsOk = True and cfg = ex_config and cs = ex_settings
        and js = "[]", unfolded e]
    by simp
qed

subsection \<open>An alarm whose window has elapsed\<close>

lemma updateAlarms_court_inactive:
  "\<not> active (alarmStates s i) \<Longrightarrow> updateAlarms_court env now i s = s"
  by (simp add: updateAlarms_court_def)




lemma fold_updateAlarms_court_frame [simp]:
  "courtSettings (fold (updateAlarms_court env now) js s) = courtSettings s"
  "timers (fold (updateAlarms_court env now) js s) = timers s"
  by (induction js arbitrary: s; simp)+










subsection \<open>Two courts expiring on one pass\<close>

lemma due_other [simp]:
  "j \<noteq> i \<Longrightarrow> advancing i (updateTimers_court env now trig j s) = advancing i s"
  "j \<noteq> i \<Longrightarrow> warningDue now' i (updateTimers_court env now trig j s) = warningDue now' i s"
  "j \<noteq> i \<Longrightarrow> expiryDue now' i (updateTimers_court env now trig j s) = expiryDue now' i s"
  by (simp_all add: advancing_def warningDue_def expiryDue_def)

lemma expiry_excludes_warning: "expiryDue now i s \<Longrightarrow> \<not> warningDue now i s"
  by (auto simp: expiryDue_def warningDue_def)

lemma updateTimers_court_expiry:
  "expiryDue now i s \<Longrightarrow>
   updateTimers_court env now trig i s =
     say (MsgTimeUpAlarm i)
       (triggerAlarm env (trig i) i (alarmDuration (config s)) False
         (setTimer i (tickTimer now (warningTime (courtSettings s i))) s))"
  using expiry_excludes_warning [of now i s]
  by (simp add: updateTimers_court_eq Let_def) (simp add: expiryDue_def)

lemma updateTimers_court_quiet:
  assumes "\<not> warningDue now i s" and "\<not> expiryDue now i s"
  shows "alarmStates (updateTimers_court env now trig i s) = alarmStates s"
    and "leds (updateTimers_court env now trig i s) = leds s"
    and "audioOwner (updateTimers_court env now trig i s) = audioOwner s"
    and "audioPlaying (updateTimers_court env now trig i s) = audioPlaying s"
    and "rendering (updateTimers_court env now trig i s) = rendering s"
    and "serial (updateTimers_court env now trig i s) = serial s"
  using assms by (simp_all add: updateTimers_court_eq Let_def)

lemma clipOpens_updateTimers_court [simp]:
  "clipOpens env' j w (updateTimers_court env now trig i s) = clipOpens env' j w s"
  by (rule clipOpens_cong) simp_all

lemma tickTimer_expired:
  "running t \<Longrightarrow> \<not> paused t \<Longrightarrow> \<not> alarmTriggered t \<Longrightarrow> sint (remainingAt now t) \<le> 0
   \<Longrightarrow> \<not> running (tickTimer now warn t) \<and> alarmTriggered (tickTimer now warn t)"
  by (simp add: tickTimer_def Let_def)

lemma two_expiries:
  assumes r: "audioSystemReady s"
    and e0: "expiryDue now 0 s" and e1: "expiryDue now 1 s"
    and q2: "\<not> warningDue now 2 s" "\<not> expiryDue now 2 s"
    and q3: "\<not> warningDue now 3 s" "\<not> expiryDue now 3 s"
  shows "active (alarmStates (updateTimers env now trig s) 0)
    \<and> leds (updateTimers env now trig s) 0
    \<and> active (alarmStates (updateTimers env now trig s) 1)
    \<and> leds (updateTimers env now trig s) 1
    \<and> audioOwner (updateTimers env now trig s) \<noteq> Some 0
    \<and> (if clipOpens env 1 False s
        then audioPlaying (updateTimers env now trig s)
             \<and> audioOwner (updateTimers env now trig s) = Some 1
        else \<not> audioPlaying (updateTimers env now trig s)
             \<and> audioOwner (updateTimers env now trig s) = None)
    \<and> \<not> running (timers (updateTimers env now trig s) 0)
    \<and> \<not> running (timers (updateTimers env now trig s) 1)"
proof -
  let ?f = "updateTimers_court env now trig"
  define s1 where "s1 = ?f 0 s"
  define s2 where "s2 = ?f 1 s1"
  define s3 where "s3 = ?f 2 s2"
  define s4 where "s4 = ?f 3 s3"
  have all: "updateTimers env now trig s = s4"
    unfolding updateTimers_unfold s1_def s2_def s3_def s4_def ..
  have s1: "active (alarmStates s1 0)" "leds s1 0" "audioSystemReady s1"
    unfolding s1_def by (simp_all add: updateTimers_court_expiry [OF e0] r)
  have e1': "expiryDue now 1 s1"
    unfolding s1_def using e1 by (simp del: One_nat_def)
  have s2: "active (alarmStates s2 0)" "leds s2 0" "active (alarmStates s2 1)" "leds s2 1"
    "audioOwner s2 = (if clipOpens env 1 False s then Some 1 else None)"
    "audioPlaying s2 = clipOpens env 1 False s"
    unfolding s2_def using s1
    by (simp_all add: updateTimers_court_expiry [OF e1'] triggerAlarm_channel del: One_nat_def)
      (simp_all add: s1_def del: One_nat_def)
  have q2': "\<not> warningDue now 2 s2" "\<not> expiryDue now 2 s2"
    unfolding s2_def s1_def using q2 by (simp_all del: One_nat_def)
  note k3 = updateTimers_court_quiet [OF q2', of env trig, folded s3_def]
  have q3': "\<not> warningDue now 3 s3" "\<not> expiryDue now 3 s3"
    unfolding s3_def s2_def s1_def using q3 by (simp_all del: One_nat_def)
  note k4 = updateTimers_court_quiet [OF q3', of env trig, folded s4_def]
  have t: "\<not> running (timers s4 0)" "\<not> running (timers s4 1)"
    unfolding all [symmetric] using e0 e1
    by (simp_all add: updateTimers_timers expiryDue_def advancing_def tickTimer_expired
          del: One_nat_def)
  show ?thesis
    unfolding all using s2 t by (simp add: k4 k3 del: One_nat_def)
qed

lemma ex_two_started_simps:
  "timers ex_two_started 0 = \<lparr>running = True, paused = False, startTime = 0, pauseTime = 0,
     duration = 60000, remainingTime = 60, warningTriggered = False, alarmTriggered = False,
     playerName = ''A'', sessionCount = 1, totalPlayTime = 0\<rparr>"
  "timers ex_two_started 1 = \<lparr>running = True, paused = False, startTime = 0, pauseTime = 0,
     duration = 60000, remainingTime = 60, warningTriggered = False, alarmTriggered = False,
     playerName = ''B'', sessionCount = 1, totalPlayTime = 0\<rparr>"
  "\<not> running (timers ex_two_started 2)" "\<not> running (timers ex_two_started 3)"
  "audioSystemReady ex_two_started" "useSDCard (config ex_two_started)"
  "sdCardAvailable ex_two_started"
  by (simp_all add: ex_two_started_def handleStart_valid del: One_nat_def)

lemma ex_two_started_due:
  "expiryDue 60000 0 ex_two_started" "expiryDue 60000 1 ex_two_started"
  "\<not> warningDue 60000 2 ex_two_started" "\<not> expiryDue 60000 2 ex_two_started"
  "\<not> warningDue 60000 3 ex_two_started" "\<not> expiryDue 60000 3 ex_two_started"
  by (simp_all add: expiryDue_def warningDue_def advancing_def remainingAt_def
        ex_two_started_simps del: One_nat_def)

text \<open>
  C4, as stated, fails: courts 0 and 1 both expire on the pass at clock reading 60000
  and the storage holds no clip. After the pass the channel is idle; court 1 does not
  own it.
\<close>

theorem C4_counterexample:
  "expiryDue 60000 0 ex_two_started \<and> expiryDue 60000 1 ex_two_started
   \<and> \<not> audioPlaying (updateTimers storage_empty 60000 (\<lambda>i. 60000) ex_two_started)
   \<and> audioOwner (updateTimers storage_empty 60000 (\<lambda>i. 60000) ex_two_started) = None"
  using two_expiries [OF ex_two_started_simps(5) ex_two_started_due, of storage_empty "\<lambda>i. 60000"]
    ex_two_started_due(1,2)
  by simp

text \<open>
  C4, amended. \<open>updateTimers\<close> processes the courts in the order 0, 1, 2, 3. When
  courts 0 and 1 both reach expiry on one pass and courts 2 and 3 raise no alarm on
  it, then after the pass both timers are stopped, the alarms of courts 0 and 1 are
  active with their LEDs on, and court 0 does not own the channel: the channel is
  owned by court 1 when the expiry clip of court 1 or the default expiry clip opens,
  and is idle otherwise.
\<close>

theorem C4_two_expiries_same_pass:
  assumes "audioSystemReady s"
    and "expiryDue now 0 s" and "expiryDue now 1 s"
    and "\<not> warningDue now 2 s" and "\<not> expiryDue now 2 s"
    and "\<not> warningDue now 3 s" and "\<not> expiryDue now 3 s"
  shows "updateTimers env now trig s =
      updateTimers_court env now trig 3 (updateTimers_court env now trig 2
        (updateTimers_court env now trig 1 (updateTimers_court env now trig 0 s)))
    \<and> active (alarmStates (updateTimers env now trig s) 0)
    \<and> leds (updateTimers env now trig s) 0
    \<and> active (alarmStates (updateTimers env now trig s) 1)
    \<and> leds (updateTimers env now trig s) 1
    \<and> audioOwner (updateTimers env now trig s) \<noteq> Some 0
    \<and> (if clipOpens env 1 False s
        then audioPlaying (updateTimers env now trig s)
             \<and> audioOwner (updateTimers env now trig s) = Some 1
        else \<not> audioPlaying (updateTimers env now trig s)
             \<and> audioOwner (updateTimers env now trig s) = None)
    \<and> \<not> running (timers (updateTimers env now trig s) 0)
    \<and> \<not> running (timers (updateTimers env now trig s) 1)"
  using two_expiries [OF assms, of env trig] updateTimers_unfold [of env now trig s]
  by blast

theorem C4_two_expiries_same_pass_witness:
  "expiryDue 60000 0 ex_two_started \<and> expiryDue 60000 1 ex_two_started
   \<and> active (alarmStates (updateTimers storage_full 60000 (\<lambda>i. 60000) ex_two_started) 0)
   \<and> leds (updateTimers storage_full 60000 (\<lambda>i. 60000) ex_two_started) 0
   \<and> audioPlaying (updateTimers storage_full 60000 (\<lambda>i. 60000) ex_two_started)
   \<and> audioOwner (updateTimers storage_full 60000 (\<lambda>i. 60000) ex_two_started) = Some 1"
  using C4_two_expiries_same_pass [OF ex_two_started_simps(5) ex_two_started_due,
          of storage_full "\<lambda>i. 60000", THEN conjunct2]
    ex_two_started_due(1,2) ex_two_started_simps(6,7)
  by simp

subsection \<open>The latches\<close>





lemma budget_cong:
  "timers s' c = timers s c \<Longrightarrow> fired (MsgWarningAlarm c) s' = fired (MsgWarningAlarm c) s
   \<Longrightarrow> warnBudget c s' = warnBudget c s"
  "timers s' c = timers s c \<Longrightarrow> fired (MsgTimeUpAlarm c) s' = fired (MsgTimeUpAlarm c) s
   \<Longrightarrow> expiryBudget c s' = expiryBudget c s"
  by (simp_all add: warnBudget_def expiryBudget_def)

lemma handleStart_fired [simp]:
  "fired (MsgWarningAlarm c) (snd (handleStart rs m s)) = fired (MsgWarningAlarm c) s"
  "fired (MsgTimeUpAlarm c) (snd (handleStart rs m s)) = fired (MsgTimeUpAlarm c) s"
  by (simp_all add: handleStart_def split: body.split prod.split)

lemma handlePause_fired [simp]:
  "fired (MsgWarningAlarm c) (snd (handlePause rp m s)) = fired (MsgWarningAlarm c) s"
  "fired (MsgTimeUpAlarm c) (snd (handlePause rp m s)) = fired (MsgTimeUpAlarm c) s"
  "warningTriggered (timers (snd (handlePause rp m s)) c) = warningTriggered (timers s c)"
  "alarmTriggered (timers (snd (handlePause rp m s)) c) = alarmTriggered (timers s c)"
  by (simp_all add: handlePause_def Let_def split: body.split)

lemma handleStop_fired [simp]:
  "fired (MsgWarningAlarm c) (snd (handleStop rp s)) = fired (MsgWarningAlarm c) s"
  "fired (MsgTimeUpAlarm c) (snd (handleStop rp s)) = fired (MsgTimeUpAlarm c) s"
  "warningTriggered (timers (snd (handleStop rp s)) c) = warningTriggered (timers s c)"
  "alarmTriggered (timers (snd (handleStop rp s)) c) = alarmTriggered (timers s c)"
  by (simp_all add: handleStop_def Let_def split: body.split)

lemma handleSettings_timers [simp]:
  "timers (snd (handleSettings rt s)) = timers s"
  "fired (MsgWarningAlarm c) (snd (handleSettings rt s)) = fired (MsgWarningAlarm c) s"
  "fired (MsgTimeUpAlarm c) (snd (handleSettings rt s)) = fired (MsgTimeUpAlarm c) s"
  by (simp_all add: handleSettings_def fired_def split: body.split prod.split)

lemma handleSetDuration_timers [simp]:
  "timers (snd (handleSetDuration rd s)) = timers s"
  "fired (MsgWarningAlarm c) (snd (handleSetDuration rd s)) = fired (MsgWarningAlarm c) s"
  "fired (MsgTimeUpAlarm c) (snd (handleSetDuration rd s)) = fired (MsgTimeUpAlarm c) s"
  by (simp_all add: handleSetDuration_def Let_def fired_def split: body.split prod.split)

lemma handleGlobalVolume_timers [simp]:
  "timers (snd (handleGlobalVolume rg s)) = timers s"
  "fired (MsgWarningAlarm c) (snd (handleGlobalVolume rg s)) = fired (MsgWarningAlarm c) s"
  "fired (MsgTimeUpAlarm c) (snd (handleGlobalVolume rg s)) = fired (MsgTimeUpAlarm c) s"
  by (simp_all add: handleGlobalVolume_def fired_def split: body.split)













subsection \<open>Pausing and resuming\<close>

lemma tickTimer_keeps_invariant:
  "paused t \<longrightarrow> running t \<Longrightarrow> paused (tickTimer now warn t) \<longrightarrow> running (tickTimer now warn t)"
  by (simp add: tickTimer_def Let_def)

lemma timersOk_exec: "timersOk s \<Longrightarrow> timersOk (exec op s)"
proof (cases op)
  case (Start rs m)
  then show "timersOk s \<Longrightarrow> ?thesis"
    by (cases rs) (auto simp: timersOk_def handleStart_def)
next
  case (Pause rp m)
  then show "timersOk s \<Longrightarrow> ?thesis"
    by (cases rp) (auto simp: timersOk_def handlePause_def Let_def)
next
  case (Stop rp)
  then show "timersOk s \<Longrightarrow> ?thesis"
    by (cases rp) (auto simp: timersOk_def handleStop_def Let_def)
next
  case (TimerTick env now trig)
  then show "timersOk s \<Longrightarrow> ?thesis"
    by (simp add: timersOk_def updateTimers_timers tickTimer_keeps_invariant)
qed (simp_all add: timersOk_def)

lemma timersOk_run: "timersOk s \<Longrightarrow> timersOk (run ops s)"
  unfolding run_def by (induction ops arbitrary: s) (simp_all add: timersOk_exec)

lemma timersOk_reachable: "timersOk (run ops (setup_fw sdOk lfsOk cfg cs))"
  by (rule timersOk_run) (simp add: timersOk_def setup_fw_def)

lemma paused_timer_constant:
  "paused (timers s c) \<Longrightarrow> timers (updateTimers env now trig s) c = timers s c"
  by (simp add: updateTimers_timers tickTimer_idle)

lemma paused_tick_constant:
  "isTick op \<Longrightarrow> paused (timers s c) \<Longrightarrow> timers (exec op s) c = timers s c"
  by (cases op) (simp_all add: paused_timer_constant)

lemma paused_ticks_constant:
  "\<forall>op \<in> set ticks. isTick op \<Longrightarrow> paused (timers s c) \<Longrightarrow> timers (run ticks s) c = timers s c"
  unfolding run_def
  by (induction ticks arbitrary: s) (simp_all add: paused_tick_constant)

lemma handlePause_pause:
  "c < 4 \<Longrightarrow> running (timers s c) \<Longrightarrow> \<not> paused (timers s c) \<Longrightarrow>
   handlePause (Json (int c)) millis s =
     (200, say (MsgCourtPaused c) (setTimer c (\<lambda>t. t\<lparr>paused := True, pauseTime := millis\<rparr>) s))"
  by (simp add: handlePause_def)

lemma handlePause_resume:
  "c < 4 \<Longrightarrow> paused (timers s c) \<Longrightarrow>
   handlePause (Json (int c)) millis s =
     (200, say (MsgCourtResumed c)
        (setTimer c (\<lambda>t. t\<lparr>startTime := startTime t + (millis - pauseTime (timers s c)),
                            paused := False\<rparr>) s))"
  by (simp add: handlePause_def)

lemma handlePause_idle:
  "c < 4 \<Longrightarrow> \<not> running (timers s c) \<Longrightarrow> \<not> paused (timers s c) \<Longrightarrow>
   handlePause (Json (int c)) millis s = (200, s)"
  by (simp add: handlePause_def)

lemma tickTimer_remaining:
  "running t \<Longrightarrow> \<not> paused t \<Longrightarrow> remainingTime (tickTimer now warn t) = remainingAt now t"
  by (simp add: tickTimer_def Let_def)

text \<open>
  C8. A running, unpaused timer of a court 0..3 is paused at clock reading \<open>p\<close>,
  any number of update passes run, and it is resumed at clock reading \<open>r\<close>. While
  paused the timer, and so its remaining time, is not touched. On resuming, only
  \<open>startTime\<close> moves, forward by exactly \<open>r - p\<close>, so at any time \<open>d\<close> after the
  resume the remaining time computed is the one the timer would have had \<open>d\<close> after
  the moment of the pause had it not been paused. In every state the firmware reaches,
  the toggle on a timer that is not running answers 200 and changes nothing.
\<close>

theorem C8_pause_then_resume:
  assumes "c < 4" and "advancing c s" and "\<forall>op \<in> set ticks. isTick op"
    and "s1 = snd (handlePause (Json (int c)) p s)"
    and "s2 = run ticks s1"
    and "s3 = snd (handlePause (Json (int c)) r s2)"
    and "u = run ops (setup_fw sdOk lfsOk cfg cs)"
  shows "paused (timers s1 c) \<and> running (timers s1 c)
    \<and> timers s2 c = timers s1 c
    \<and> remainingTime (timers s2 c) = remainingTime (timers s c)
    \<and> timers s3 c = (timers s c)\<lparr>startTime := startTime (timers s c) + (r - p), pauseTime := p\<rparr>
    \<and> advancing c s3
    \<and> remainingAt (r + d) (timers s3 c) = remainingAt (p + d) (timers s c)
    \<and> remainingTime (timers (updateTimers env (r + d) trig s3) c)
        = remainingTime (timers (updateTimers env' (p + d) trig' s) c)
    \<and> (\<not> running (timers u c) \<longrightarrow> handlePause (Json (int c)) millis u = (200, u))"
proof -
  from assms(2) have run: "running (timers s c)" "\<not> paused (timers s c)"
    by (simp_all add: advancing_def)
  have t1: "timers s1 c = (timers s c)\<lparr>paused := True, pauseTime := p\<rparr>"
    unfolding assms(4) by (simp add: handlePause_pause [OF assms(1) run])
  then have p1: "paused (timers s1 c)" by simp
  have t2: "timers s2 c = timers s1 c"
    unfolding assms(5) by (rule paused_ticks_constant [OF assms(3) p1])
  have t3: "timers s3 c =
      (timers s c)\<lparr>startTime := startTime (timers s c) + (r - p), pauseTime := p\<rparr>"
    unfolding assms(6) using run
    by (simp add: handlePause_resume [OF assms(1)] t2 t1)
  have adv3: "advancing c s3"
    using run by (simp add: advancing_def t3)
  have el: "r + d - (startTime (timers s c) + (r - p)) = p + d - startTime (timers s c)"
    by (simp add: algebra_simps)
  have f3: "startTime (timers s3 c) = startTime (timers s c) + (r - p)"
    "duration (timers s3 c) = duration (timers s c)"
    by (simp_all add: t3)
  have rem: "remainingAt (r + d) (timers s3 c) = remainingAt (p + d) (timers s c)"
    unfolding remainingAt_def f3 el ..
  have rt: "remainingTime (timers (updateTimers env (r + d) trig s3) c)
      = remainingTime (timers (updateTimers env' (p + d) trig' s) c)"
    using assms(1) run adv3 rem
    by (simp add: updateTimers_timers tickTimer_remaining advancing_def)
  have idle: "handlePause (Json (int c)) millis u = (200, u)" if "\<not> running (timers u c)"
  proof -
    have "timersOk u" unfolding assms(7) by (rule timersOk_reachable)
    with that assms(1) have "\<not> paused (timers u c)" by (auto simp: timersOk_def)
    with that show ?thesis by (simp add: handlePause_idle [OF assms(1)])
  qed
  show ?thesis
    using t1 t2 t3 adv3 rem rt idle run by simp
qed

theorem C8_pause_then_resume_witness:
  "advancing 0 ex_started
   \<and> remainingTime (timers (updateTimers storage_full 15000 (\<lambda>i. 15000) ex_started) 0) = 45
   \<and> remainingTime (timers (updateTimers storage_full 30000 (\<lambda>i. 30000)
         (snd (handlePause (Json 0) 25000
           (run ex_paused_ticks (snd (handlePause (Json 0) 10000 ex_started)))))) 0) = 45
   \<and> \<not> running (timers ex_boot 0)
   \<and> handlePause (Json 0) 7 ex_boot = (200, ex_boot)"
proof -
  have a: "advancing 0 ex_started"
    by (simp add: advancing_def ex_started_timer)
  have t: "\<forall>op \<in> set ex_paused_ticks. isTick op"
    by (simp add: ex_paused_ticks_def)
  have z: "(0::nat) < 4" by simp
  have u: "ex_boot = run [] (setup_fw True True ex_config ex_settings)"
    by (simp add: run_def ex_boot_def)
  have n: "remainingTime (timers (updateTimers storage_full 15000 (\<lambda>i. 15000) ex_started) 0) = 45"
    by (simp add: updateTimers_timers tickTimer_def remainingAt_def ex_started_timer Let_def)
  from C8_pause_then_resume [OF z a t refl refl refl u, where p = 10000 and r = 25000
      and d = 5000 and env = storage_full and trig = "\<lambda>i. 30000" and env' = storage_full
      and trig' = "\<lambda>i. 15000" and millis = 7]
  show ?thesis
    using a n by simp
qed

subsection \<open>A looping alarm after a Stop request\<close>

lemma updateAlarms_court_loop:
  "active (alarmStates s i) \<Longrightarrow> duration_a (alarmStates s i) \<le> now - startTime_a (alarmStates s i)
   \<Longrightarrow> looping (alarmStates s i) \<Longrightarrow> loopAlarm (courtSettings s i)
   \<Longrightarrow> updateAlarms_court env now i s =
        say (MsgLoopAlarm i)
          (playAudio env i (isWarning (alarmStates s i))
            (setAlarm i (\<lambda>a. a\<lparr>startTime_a := now\<rparr>) s))"
  by (simp add: updateAlarms_court_def)

text \<open>
  What the missing write in \<open>handleStop\<close> leads to: the stopped court is silent with
  its LED off, and at the end of the alarm window the pass over the alarms starts its
  clip again, the LED still off.
\<close>

lemma stopped_looping_alarm_restarts:
  "\<not> audioPlaying ex_looping_stopped \<and> \<not> leds ex_looping_stopped 2
   \<and> audioPlaying (updateAlarms storage_full 12000 ex_looping_stopped)
   \<and> audioOwner (updateAlarms storage_full 12000 ex_looping_stopped) = Some 2
   \<and> \<not> leds (updateAlarms storage_full 12000 ex_looping_stopped) 2"
proof -
  define s where "s = ex_looping_stopped"
  have a: "\<not> active (alarmStates s 0)" "\<not> active (alarmStates s 1)" "\<not> active (alarmStates s 3)"
    "alarmStates s 2 = \<lparr>active = True, startTime_a = 0, duration_a = 12000,
        isWarning = False, fieldIndex = 2, looping = True\<rparr>"
    "loopAlarm (courtSettings s 2)" "audioSystemReady s" "\<not> audioPlaying s" "\<not> leds s 2"
    "useSDCard (config s)" "sdCardAvailable s"
    by (simp_all add: s_def ex_looping_stopped_def handleStop_valid setup_fw_def del: One_nat_def)
  define s2 where "s2 = updateAlarms_court storage_full 12000 2 s"
  have s2: "s2 = say (MsgLoopAlarm 2)
      (playAudio storage_full 2 False (setAlarm 2 (\<lambda>a. a\<lparr>startTime_a := 12000\<rparr>) s))"
    unfolding s2_def by (simp add: updateAlarms_court_loop a)
  have a3: "\<not> active (alarmStates s2 3)"
    by (simp add: s2 a)
  have "updateAlarms storage_full 12000 s = updateAlarms_court storage_full 12000 3 s2"
    unfolding updateAlarms_unfold s2_def
    by (simp only: updateAlarms_court_inactive [OF a(1)] updateAlarms_court_inactive [OF a(2)])
  also have "\<dots> = s2"
    by (rule updateAlarms_court_inactive [OF a3])
  finally have "updateAlarms storage_full 12000 s = s2" .
  then show ?thesis
    unfolding s_def [symmetric] using a by (simp add: s2 playAudio_channel)
qed

end
